theory Spec2Isabelle
  imports Complex_Main "HOL-Library.AList"
begin

section \<open>Alert Manager (backend/app/services/alert\_manager.py)\<close>

text \<open>
  Times are \<^verbatim>\<open>datetime\<close> values, modelled as a number of microseconds; every operation that
  reads \<^verbatim>\<open>datetime.now()\<close> takes the clock value \<open>now\<close> as an argument (the successive
  reads inside one call are one value). Logging is not modelled.
\<close>

type_synonym time = int

definition hours24 :: time where
  \<comment> \<open>\<^verbatim>\<open>timedelta(hours=24)\<close>\<close>
  "hours24 = 24 * 3600 * 1000000"

text \<open>
  The argument of \<^verbatim>\<open>process_alert\<close> is a dictionary; the keys the method reads are fields
  here, \<open>None\<close> where the key is missing.
\<close>

record alert_data =
  d_type :: "string option"
  d_agent_id :: "string option"
  d_severity :: "string option"
  d_description :: "string option"
  d_suggested_action :: "string option"

text \<open>The alert dictionary built by \<^verbatim>\<open>process_alert\<close>; \<open>resolved_at\<close> is a key added later.\<close>

record alert =
  alert_id :: string
  alert_type :: string
  alert_severity :: string
  alert_description :: string
  first_seen :: time
  last_seen :: time
  count :: int
  status :: string
  agent_id :: "string option"
  alert_suggested_action :: "string option"
  resolved_at :: "time option"

text \<open>
  \<^verbatim>\<open>active_alerts\<close> is a Python dict, which keeps insertion order: an association list whose
  keys are updated in place (\<open>AList.update\<close>), appended when new, and removed by
  \<open>AList.delete\<close>. \<^verbatim>\<open>alert_history\<close> is a list.
\<close>

record alert_manager =
  active_alerts :: "(string \<times> alert) list"
  alert_history :: "alert list"

definition AlertManager_init :: alert_manager where
  "AlertManager_init = \<lparr>active_alerts = [], alert_history = []\<rparr>"

definition make_alert_id :: "string \<Rightarrow> string option \<Rightarrow> string" where
  \<comment> \<open>\<^verbatim>\<open>f"{alert_data['type']}_{alert_data.get('agent_id', 'unknown')}"\<close>\<close>
  "make_alert_id ty ag = ty @ ''_'' @ (case ag of None \<Rightarrow> ''unknown'' | Some a \<Rightarrow> a)"

definition new_alert :: "time \<Rightarrow> string \<Rightarrow> string \<Rightarrow> alert_data \<Rightarrow> alert" where
  "new_alert now aid ty d =
     \<lparr>alert_id = aid,
      alert_type = ty,
      alert_severity = (case d_severity d of None \<Rightarrow> ''medium'' | Some v \<Rightarrow> v),
      alert_description = (case d_description d of None \<Rightarrow> '''' | Some v \<Rightarrow> v),
      first_seen = now,
      last_seen = now,
      count = 1,
      status = ''active'',
      agent_id = d_agent_id d,
      alert_suggested_action = d_suggested_action d,
      resolved_at = None\<rparr>"

text \<open>
  \<^verbatim>\<open>process_alert\<close> returns the stored alert, or \<^verbatim>\<open>{}\<close> (here \<open>None\<close>) when the lookup of
  \<^verbatim>\<open>alert_data['type']\<close> raises \<^verbatim>\<open>KeyError\<close>. A new alert is stored, and a copy of it
  (\<^verbatim>\<open>.copy()\<close>) is appended to the history: the copy is a separate dictionary, which later
  updates of the stored alert do not reach.
\<close>

definition process_alert :: "time \<Rightarrow> alert_data \<Rightarrow> alert_manager \<Rightarrow> alert option \<times> alert_manager" where
  "process_alert now d s =
     (case d_type d of
        None \<Rightarrow> (None, s)
      | Some ty \<Rightarrow>
          let aid = make_alert_id ty (d_agent_id d);
              s' = (case map_of (active_alerts s) aid of
                      Some a \<Rightarrow>
                        s\<lparr>active_alerts :=
                            AList.update aid (a\<lparr>last_seen := now, count := count a + 1\<rparr>) (active_alerts s)\<rparr>
                    | None \<Rightarrow>
                        let a = new_alert now aid ty d
                        in s\<lparr>active_alerts := AList.update aid a (active_alerts s),
                             alert_history := alert_history s @ [a]\<rparr>)
          in (map_of (active_alerts s') aid, s'))"

text \<open>
  \<^verbatim>\<open>resolve_alert\<close> writes the status and the resolved-at stamp into the stored alert and then
  deletes that alert from \<^verbatim>\<open>active_alerts\<close>.
\<close>

definition resolve_alert :: "time \<Rightarrow> string \<Rightarrow> alert_manager \<Rightarrow> bool \<times> alert_manager" where
  "resolve_alert now aid s =
     (case map_of (active_alerts s) aid of
        Some a \<Rightarrow>
          let stamped = AList.update aid (a\<lparr>status := ''resolved'', resolved_at := Some now\<rparr>) (active_alerts s)
          in (True, s\<lparr>active_alerts := AList.delete aid stamped\<rparr>)
      | None \<Rightarrow> (False, s))"

definition get_active_alerts :: "alert_manager \<Rightarrow> alert list" where
  \<comment> \<open>\<^verbatim>\<open>list(self.active_alerts.values())\<close>\<close>
  "get_active_alerts s = map snd (active_alerts s)"

definition get_alert_history :: "int \<Rightarrow> alert_manager \<Rightarrow> alert list" where
  \<comment> \<open>\<^verbatim>\<open>self.alert_history[-limit:]\<close>, with Python's slice rules for a start of either sign\<close>
  "get_alert_history limit s =
     (let h = alert_history s
      in if limit > 0 then drop (length h - nat limit) h else drop (nat (- limit)) h)"

definition is_stale :: "time \<Rightarrow> alert \<Rightarrow> bool" where
  \<comment> \<open>the test of the sweep, \<^verbatim>\<open>cutoff_time = datetime.now() - timedelta(hours=24)\<close>\<close>
  "is_stale now a \<longleftrightarrow>
     status a = ''resolved'' \<and> (case resolved_at a of None \<Rightarrow> now | Some t \<Rightarrow> t) < now - hours24"

definition cleanup_old_alerts :: "time \<Rightarrow> alert_manager \<Rightarrow> alert_manager" where
  "cleanup_old_alerts now s =
     (let alerts_to_remove = map fst (filter (\<lambda>(aid, a). is_stale now a) (active_alerts s))
      in s\<lparr>active_alerts := fold AList.delete alerts_to_remove (active_alerts s)\<rparr>)"

text \<open>The states the manager can be in: those its methods produce from a new instance.\<close>

inductive reachable :: "alert_manager \<Rightarrow> bool" where
  reach_init: "reachable AlertManager_init"
| reach_process: "reachable s \<Longrightarrow> reachable (snd (process_alert now d s))"
| reach_resolve: "reachable s \<Longrightarrow> reachable (snd (resolve_alert now aid s))"
| reach_cleanup: "reachable s \<Longrightarrow> reachable (cleanup_old_alerts now s)"


section \<open>Anomaly engine (backend/app/services/ai\_engine.py)\<close>

subsection \<open>Data\<close>

text \<open>
  A snapshot (\<^verbatim>\<open>metrics_data\<close>) is a dictionary of groups (\<^verbatim>\<open>cpu\<close>, \<^verbatim>\<open>memory\<close>, \<^verbatim>\<open>disk\<close>,
  \<^verbatim>\<open>network\<close>), each a dictionary of named numbers. Numbers are real numbers: the rounding of
  floating-point arithmetic is not modelled.
\<close>

type_synonym group = "string \<rightharpoonup> real"
type_synonym metrics = "string \<rightharpoonup> group"

record entry =
  timestamp :: time
  data :: metrics

text \<open>
  A finding is the dictionary a detector appends to \<^verbatim>\<open>anomalies\<close>; a key that a detector
  does not set is \<open>None\<close>. A description built by an f-string is its template and the
  numbers formatted into it.
\<close>

record finding =
  ftype :: string
  severity :: string
  score :: "real option"
  fvalue :: "real option"
  threshold :: "real option"
  description :: "string \<times> real list"
  suggested_action :: string

datatype py_error = ValueError | KeyError | IndexError

text \<open>
  The scikit-learn objects are a library outside the repository: their methods are the fields
  of a record that every function using them takes as an argument. A method that mutates its
  object returns the object after the call; \<open>None\<close> and \<open>False\<close> stand for a raised
  exception.
\<close>

record ('m, 'sc) sklearn =
  IsolationForest :: "real \<Rightarrow> int \<Rightarrow> int \<Rightarrow> 'm"
  StandardScaler :: "'sc"
  fit_transform :: "'sc \<Rightarrow> real list list \<Rightarrow> 'sc \<times> real list list option"
  transform :: "'sc \<Rightarrow> real list list \<Rightarrow> real list list option"
  fit :: "'m \<Rightarrow> real list list \<Rightarrow> 'm \<times> bool"
  decision_function :: "'m \<Rightarrow> real list list \<Rightarrow> real list option"
  predict :: "'m \<Rightarrow> real list list \<Rightarrow> int list option"

record ('m, 'sc) engine =
  anomaly_models :: "string \<rightharpoonup> 'm"
  scalers :: "string \<rightharpoonup> 'sc"
  historical_data :: "entry list"
  patterns :: "string \<rightharpoonup> real"
  initialized :: bool

definition thresholds :: "string \<rightharpoonup> real" where
  \<comment> \<open>\<^verbatim>\<open>self.thresholds\<close>: assigned in \<^verbatim>\<open>__init__\<close> and never written again\<close>
  "thresholds = [''cpu_usage'' \<mapsto> 80, ''memory_usage'' \<mapsto> 85, ''disk_usage'' \<mapsto> 90,
                 ''network_latency'' \<mapsto> 200]"

definition AIEngine_init :: "('m, 'sc) engine" where
  "AIEngine_init =
     \<lparr>anomaly_models = Map.empty, scalers = Map.empty, historical_data = [],
      patterns = Map.empty, initialized = False\<rparr>"

definition initialize :: "('m, 'sc) sklearn \<Rightarrow> ('m, 'sc) engine \<Rightarrow> ('m, 'sc) engine" where
  "initialize lib e =
     e\<lparr>anomaly_models := [''system_metrics'' \<mapsto> IsolationForest lib 0.1 42 100,
                           ''network_metrics'' \<mapsto> IsolationForest lib 0.05 42 50],
       scalers := [''system_metrics'' \<mapsto> StandardScaler lib,
                   ''network_metrics'' \<mapsto> StandardScaler lib],
       initialized := True\<rparr>"

subsection \<open>The history buffer\<close>

definition maxlen :: nat where
  "maxlen = 1000"

definition deque_append :: "'a list \<Rightarrow> 'a \<Rightarrow> 'a list" where
  \<comment> \<open>\<^verbatim>\<open>deque(maxlen=1000).append\<close>: append on the right, then drop the leftmost item when over the bound\<close>
  "deque_append q x = (let q' = q @ [x] in if length q' > maxlen then tl q' else q')"

definition last_n :: "nat \<Rightarrow> 'a list \<Rightarrow> 'a list" where
  \<comment> \<open>the slice \<^verbatim>\<open>xs[-k:]\<close> for a positive \<open>k\<close>\<close>
  "last_n k xs = drop (length xs - k) xs"

subsection \<open>Feature extraction\<close>

definition get0 :: "group \<Rightarrow> string \<Rightarrow> real" where
  \<comment> \<open>\<^verbatim>\<open>group.get(key, 0)\<close>\<close>
  "get0 g k = (case g k of None \<Rightarrow> 0 | Some v \<Rightarrow> v)"

definition extract_system_features :: "metrics \<Rightarrow> real list option" where
  "extract_system_features metrics_data =
     (let features =
            (case metrics_data ''cpu'' of
               None \<Rightarrow> []
             | Some cpu_data \<Rightarrow>
                 [get0 cpu_data ''usage_percent'', get0 cpu_data ''load_avg_1m'',
                  get0 cpu_data ''load_avg_5m'', get0 cpu_data ''context_switches''])
          @ (case metrics_data ''memory'' of
               None \<Rightarrow> []
             | Some mem_data \<Rightarrow>
                 [get0 mem_data ''usage_percent'', get0 mem_data ''available_mb'',
                  get0 mem_data ''swap_usage_percent''])
          @ (case metrics_data ''disk'' of
               None \<Rightarrow> []
             | Some disk_data \<Rightarrow>
                 [get0 disk_data ''usage_percent'', get0 disk_data ''read_bytes_per_sec'',
                  get0 disk_data ''write_bytes_per_sec'', get0 disk_data ''io_wait_percent''])
      in if features = [] then None else Some features)"

definition extract_network_features :: "metrics \<Rightarrow> real list option" where
  "extract_network_features metrics_data =
     (let features =
            (case metrics_data ''network'' of
               None \<Rightarrow> []
             | Some net_data \<Rightarrow>
                 [get0 net_data ''latency_ms'', get0 net_data ''packet_loss_percent'',
                  get0 net_data ''bandwidth_usage_percent'', get0 net_data ''connections_count'',
                  get0 net_data ''bytes_sent_per_sec'', get0 net_data ''bytes_recv_per_sec''])
      in if features = [] then None else Some features)"


subsection \<open>Outlier-model detectors\<close>

text \<open>
  Each detector runs inside \<^verbatim>\<open>try\<close>/\<^verbatim>\<open>except Exception\<close> and returns \<^verbatim>\<open>[]\<close> when anything
  raises; what was written to the scaler and the model before the exception stays written.
  \<^verbatim>\<open>features\<close> is the row of the current snapshot (the array has shape \<open>(1, n)\<close>).
\<close>

definition outlier_finding :: "string \<Rightarrow> real \<Rightarrow> string \<Rightarrow> string \<Rightarrow> real \<Rightarrow> finding" where
  \<comment> \<open>the dictionary both detectors append; \<open>limit\<close> is \<open>-0.5\<close> or \<open>-0.3\<close>\<close>
  "outlier_finding ty limit descr action anomaly_score =
     \<lparr>ftype = ty,
      severity = (if anomaly_score < limit then ''high'' else ''medium''),
      score = Some anomaly_score,
      fvalue = None,
      threshold = None,
      description = (descr, []),
      suggested_action = action\<rparr>"

definition refit_and_score ::
  "('m, 'sc) sklearn \<Rightarrow> string \<Rightarrow> real list list \<Rightarrow> real list \<Rightarrow> ('m, 'sc) engine
     \<Rightarrow> (int \<times> real) option \<times> ('m, 'sc) engine" where
  \<comment> \<open>the statements from \<^verbatim>\<open>fit_transform\<close> to \<^verbatim>\<open>predict\<close>, the same in both detectors:
      the label \<^verbatim>\<open>is_anomaly[0]\<close> and the score \<^verbatim>\<open>anomaly_score[0]\<close>, or \<open>None\<close> for an exception\<close>
  "refit_and_score lib family training_data features e =
     (case scalers e family of
        None \<Rightarrow> (None, e)
      | Some sc \<Rightarrow>
          (case fit_transform lib sc training_data of
             (sc', None) \<Rightarrow> (None, e\<lparr>scalers := (scalers e)(family \<mapsto> sc')\<rparr>)
           | (sc', Some scaled_data) \<Rightarrow>
               let e1 = e\<lparr>scalers := (scalers e)(family \<mapsto> sc')\<rparr>
               in (case anomaly_models e1 family of
                     None \<Rightarrow> (None, e1)
                   | Some md \<Rightarrow>
                       (case fit lib md scaled_data of
                          (md', False) \<Rightarrow> (None, e1\<lparr>anomaly_models := (anomaly_models e1)(family \<mapsto> md')\<rparr>)
                        | (md', True) \<Rightarrow>
                            let e2 = e1\<lparr>anomaly_models := (anomaly_models e1)(family \<mapsto> md')\<rparr>
                            in (case transform lib sc' [features] of
                                  None \<Rightarrow> (None, e2)
                                | Some scaled_features \<Rightarrow>
                                    (case decision_function lib md' scaled_features of
                                       None \<Rightarrow> (None, e2)
                                     | Some anomaly_score \<Rightarrow>
                                         (case predict lib md' scaled_features of
                                            None \<Rightarrow> (None, e2)
                                          | Some is_anomaly \<Rightarrow>
                                              (case (is_anomaly, anomaly_score) of
                                                 (l # _, sc0 # _) \<Rightarrow> (Some (l, sc0), e2)
                                               | _ \<Rightarrow> (None, e2)))))))))"

definition detect_system_anomalies ::
  "('m, 'sc) sklearn \<Rightarrow> real list \<Rightarrow> ('m, 'sc) engine \<Rightarrow> finding list \<times> ('m, 'sc) engine" where
  "detect_system_anomalies lib features e =
     (if length (historical_data e) > 50 then
        let training_features =
              List.map_filter (\<lambda>en. extract_system_features (data en)) (last_n 50 (historical_data e))
        in if length training_features > 10 then
             (case refit_and_score lib ''system_metrics'' training_features features e of
                (None, e') \<Rightarrow> ([], e')
              | (Some (is_anomaly, anomaly_score), e') \<Rightarrow>
                  (if is_anomaly = - 1
                   then [outlier_finding ''system_anomaly'' (- 0.5)
                           ''Unusual system behavior detected by ML model''
                           ''investigate_system_resources'' anomaly_score]
                   else [], e'))
           else ([], e)
      else ([], e))"

definition detect_network_anomalies ::
  "('m, 'sc) sklearn \<Rightarrow> real list \<Rightarrow> ('m, 'sc) engine \<Rightarrow> finding list \<times> ('m, 'sc) engine" where
  "detect_network_anomalies lib features e =
     (if length (historical_data e) > 30 then
        let training_features =
              List.map_filter (\<lambda>en. extract_network_features (data en)) (last_n 30 (historical_data e))
        in if length training_features > 10 then
             (case refit_and_score lib ''network_metrics'' training_features features e of
                (None, e') \<Rightarrow> ([], e')
              | (Some (is_anomaly, anomaly_score), e') \<Rightarrow>
                  (if is_anomaly = - 1
                   then [outlier_finding ''network_anomaly'' (- 0.3)
                           ''Unusual network behavior detected''
                           ''check_network_connectivity'' anomaly_score]
                   else [], e'))
           else ([], e)
      else ([], e))"

subsection \<open>Threshold detector\<close>

definition threshold_finding ::
  "string \<Rightarrow> string \<Rightarrow> real \<Rightarrow> real \<Rightarrow> string \<Rightarrow> string \<Rightarrow> finding" where
  "threshold_finding ty sev v limit descr action =
     \<lparr>ftype = ty, severity = sev, score = None, fvalue = Some v, threshold = Some limit,
      description = (descr, [v]), suggested_action = action\<rparr>"

definition detect_threshold_anomalies :: "metrics \<Rightarrow> finding list" where
  "detect_threshold_anomalies metrics_data =
     (case metrics_data ''cpu'' of
        None \<Rightarrow> []
      | Some cpu \<Rightarrow>
          let cpu_usage = get0 cpu ''usage_percent''
          in if cpu_usage > the (thresholds ''cpu_usage'')
             then [threshold_finding ''cpu_threshold_breach''
                     (if cpu_usage > 95 then ''critical'' else ''high'')
                     cpu_usage (the (thresholds ''cpu_usage''))
                     ''CPU usage {}% exceeds threshold'' ''identify_cpu_intensive_processes'']
             else [])
     @ (case metrics_data ''memory'' of
          None \<Rightarrow> []
        | Some mem \<Rightarrow>
            let mem_usage = get0 mem ''usage_percent''
            in if mem_usage > the (thresholds ''memory_usage'')
               then [threshold_finding ''memory_threshold_breach''
                       (if mem_usage > 95 then ''critical'' else ''high'')
                       mem_usage (the (thresholds ''memory_usage''))
                       ''Memory usage {}% exceeds threshold'' ''free_memory_resources'']
               else [])
     @ (case metrics_data ''disk'' of
          None \<Rightarrow> []
        | Some disk \<Rightarrow>
            let disk_usage = get0 disk ''usage_percent''
            in if disk_usage > the (thresholds ''disk_usage'')
               then [threshold_finding ''disk_threshold_breach''
                       (if disk_usage > 98 then ''critical'' else ''high'')
                       disk_usage (the (thresholds ''disk_usage''))
                       ''Disk usage {}% exceeds threshold'' ''cleanup_disk_space'']
               else [])
     @ (case metrics_data ''network'' of
          None \<Rightarrow> []
        | Some net \<Rightarrow>
            let latency = get0 net ''latency_ms''
            in if latency > the (thresholds ''network_latency'')
               then [threshold_finding ''network_latency_high'' ''medium''
                       latency (the (thresholds ''network_latency''))
                       ''Network latency {}ms exceeds threshold'' ''check_network_connectivity'']
               else [])"

subsection \<open>Trend detector\<close>

definition mean :: "real list \<Rightarrow> real" where
  \<comment> \<open>\<^verbatim>\<open>np.mean\<close> of a list that is not empty\<close>
  "mean xs = sum_list xs / real (length xs)"

definition polyfit_slope :: "real list \<Rightarrow> real" where
  \<comment> \<open>\<^verbatim>\<open>np.polyfit(range(len(ys)), ys, 1)[0]\<close>: the slope of the least-squares line through
      the points \<open>(i, ys ! i)\<close>\<close>
  "polyfit_slope ys =
     (let n = real (length ys);
          xs = map real [0..<length ys];
          sx = sum_list xs;
          sy = sum_list ys;
          sxy = sum_list (map2 (*) xs ys);
          sxx = sum_list (map (\<lambda>x. x * x) xs)
      in (n * sxy - sx * sy) / (n * sxx - sx * sx))"

definition usage_values :: "string \<Rightarrow> entry list \<Rightarrow> real list" where
  \<comment> \<open>the loop \<^verbatim>\<open>for entry in ...: if key in entry['data']: values.append(entry['data'][key].get('usage_percent', 0))\<close>\<close>
  "usage_values key entries =
     List.map_filter (\<lambda>en. map_option (\<lambda>g. get0 g ''usage_percent'') (data en key)) entries"

definition detect_pattern_anomalies :: "metrics \<Rightarrow> ('m, 'sc) engine \<Rightarrow> finding list" where
  "detect_pattern_anomalies metrics_data e =
     (if length (historical_data e) < 20 then []
      else
        let cpu_values = usage_values ''cpu'' (last_n 20 (historical_data e));
            cpu_anomalies =
              (if length cpu_values \<ge> 15 then
                 let recent_avg = mean (last_n 5 cpu_values);
                     older_avg = mean (take 5 (last_n 15 cpu_values))
                 in if recent_avg > older_avg + 30
                    then [\<lparr>ftype = ''cpu_trend_anomaly'', severity = ''high'', score = None,
                           fvalue = None, threshold = None,
                           description = (''Rapid CPU increase detected: {:.1f}% -> {:.1f}%'',
                                          [older_avg, recent_avg]),
                           suggested_action = ''investigate_cpu_spike''\<rparr>]
                    else []
               else []);
            memory_values = usage_values ''memory'' (last_n 15 (historical_data e));
            memory_anomalies =
              (if length memory_values \<ge> 10 then
                 let slope = polyfit_slope memory_values
                 in if slope > 2
                    then [\<lparr>ftype = ''memory_leak_pattern'', severity = ''high'', score = None,
                           fvalue = None, threshold = None,
                           description = (''Potential memory leak detected (trend: +{:.1f}% per interval)'',
                                          [slope]),
                           suggested_action = ''investigate_memory_leak''\<rparr>]
                    else []
               else [])
        in cpu_anomalies @ memory_anomalies)"


subsection \<open>The engine's entry point\<close>

definition array_truth :: "real list \<Rightarrow> py_error + bool" where
  \<comment> \<open>the truth value NumPy gives an array in \<^verbatim>\<open>if features:\<close>: that of its only element,
      and \<^verbatim>\<open>ValueError\<close> for an array of more than one element\<close>
  "array_truth v = (case v of [] \<Rightarrow> Inr False | [x] \<Rightarrow> Inr (x \<noteq> 0) | _ \<Rightarrow> Inl ValueError)"

definition system_step ::
  "('m, 'sc) sklearn \<Rightarrow> metrics \<Rightarrow> ('m, 'sc) engine \<Rightarrow> finding list option \<times> ('m, 'sc) engine" where
  \<comment> \<open>\<^verbatim>\<open>if system_features: system_anomalies = await self._detect_system_anomalies(system_features)\<close>;
      \<open>None\<close> when the test raises\<close>
  "system_step lib metrics_data e =
     (case extract_system_features metrics_data of
        None \<Rightarrow> (Some [], e)
      | Some system_features \<Rightarrow>
          (case array_truth system_features of
             Inl err \<Rightarrow> (None, e)
           | Inr False \<Rightarrow> (Some [], e)
           | Inr True \<Rightarrow>
               (case detect_system_anomalies lib system_features e of
                  (system_anomalies, e') \<Rightarrow> (Some system_anomalies, e'))))"

definition network_step ::
  "('m, 'sc) sklearn \<Rightarrow> metrics \<Rightarrow> ('m, 'sc) engine \<Rightarrow> finding list option \<times> ('m, 'sc) engine" where
  "network_step lib metrics_data e =
     (case extract_network_features metrics_data of
        None \<Rightarrow> (Some [], e)
      | Some network_features \<Rightarrow>
          (case array_truth network_features of
             Inl err \<Rightarrow> (None, e)
           | Inr False \<Rightarrow> (Some [], e)
           | Inr True \<Rightarrow>
               (case detect_network_anomalies lib network_features e of
                  (network_anomalies, e') \<Rightarrow> (Some network_anomalies, e'))))"

text \<open>
  \<^verbatim>\<open>detect_anomalies\<close> returns at once when the engine is not initialized. Otherwise it
  appends the snapshot to the history and runs the detectors inside \<^verbatim>\<open>try\<close>; an exception
  there makes it return \<^verbatim>\<open>[]\<close>, with the state as it is at that point.
\<close>

definition detect_anomalies ::
  "('m, 'sc) sklearn \<Rightarrow> time \<Rightarrow> metrics \<Rightarrow> ('m, 'sc) engine \<Rightarrow> finding list \<times> ('m, 'sc) engine" where
  "detect_anomalies lib now metrics_data e =
     (if \<not> initialized e then ([], e)
      else
        let e0 = e\<lparr>historical_data :=
                     deque_append (historical_data e) \<lparr>timestamp = now, data = metrics_data\<rparr>\<rparr>
        in (case system_step lib metrics_data e0 of
              (None, e1) \<Rightarrow> ([], e1)
            | (Some system_anomalies, e1) \<Rightarrow>
                (case network_step lib metrics_data e1 of
                   (None, e2) \<Rightarrow> ([], e2)
                 | (Some network_anomalies, e2) \<Rightarrow>
                     (system_anomalies @ network_anomalies
                        @ detect_threshold_anomalies metrics_data
                        @ detect_pattern_anomalies metrics_data e2, e2))))"

definition ingest_all ::
  "('m, 'sc) sklearn \<Rightarrow> (time \<times> metrics) list \<Rightarrow> ('m, 'sc) engine \<Rightarrow> ('m, 'sc) engine" where
  \<comment> \<open>the engine after one \<^verbatim>\<open>detect_anomalies\<close> call for each snapshot of the list, in order\<close>
  "ingest_all lib snaps e = fold (\<lambda>(now, metrics_data) e'. snd (detect_anomalies lib now metrics_data e')) snaps e"

subsection \<open>Failure prediction\<close>

record prediction =
  time_to_failure :: int
  confidence :: real
  current_usage :: real
  trend :: real

record predictions =
  disk_full_prediction :: "prediction option"
  memory_exhaustion_prediction :: "prediction option"
  cpu_overload_prediction :: "prediction option"

definition py_int :: "real \<Rightarrow> int" where
  \<comment> \<open>\<^verbatim>\<open>int(x)\<close>: truncation towards zero\<close>
  "py_int x = (if x \<ge> 0 then \<lfloor>x\<rfloor> else \<lceil>x\<rceil>)"

definition predict_failure :: "metrics \<Rightarrow> ('m, 'sc) engine \<Rightarrow> predictions" where
  "predict_failure metrics_data e =
     (if length (historical_data e) < 10
      then \<lparr>disk_full_prediction = None, memory_exhaustion_prediction = None,
            cpu_overload_prediction = None\<rparr>
      else
        let disk =
              (if metrics_data ''disk'' \<noteq> None then
                 let disk_usage_history = usage_values ''disk'' (last_n 10 (historical_data e))
                 in if length disk_usage_history \<ge> 5 then
                      let slope = polyfit_slope disk_usage_history;
                          current = last disk_usage_history
                      in if slope > 0.1 then
                           let time_to_full = (100 - current) / slope
                           in if time_to_full < 100
                              then Some \<lparr>time_to_failure = py_int time_to_full,
                                         confidence = min 0.9 (slope * 10),
                                         current_usage = current,
                                         trend = slope\<rparr>
                              else None
                         else None
                    else None
               else None);
            memory =
              (if metrics_data ''memory'' \<noteq> None then
                 let memory_usage_history = usage_values ''memory'' (last_n 10 (historical_data e))
                 in if length memory_usage_history \<ge> 5 then
                      let slope = polyfit_slope memory_usage_history;
                          current = last memory_usage_history
                      in if slope > 0.5 then
                           let time_to_exhaustion = (95 - current) / slope
                           in if time_to_exhaustion < 50
                              then Some \<lparr>time_to_failure = py_int time_to_exhaustion,
                                         confidence = min 0.85 (slope * 5),
                                         current_usage = current,
                                         trend = slope\<rparr>
                              else None
                         else None
                    else None
               else None)
        in \<lparr>disk_full_prediction = disk, memory_exhaustion_prediction = memory,
            cpu_overload_prediction = None\<rparr>)"


section \<open>Example inputs\<close>

definition example_finding :: alert_data where
  "example_finding =
     \<lparr>d_type = Some ''cpu_threshold_breach'', d_agent_id = Some ''host1'',
      d_severity = Some ''high'', d_description = Some ''CPU usage 82% exceeds threshold'',
      d_suggested_action = Some ''identify_cpu_intensive_processes''\<rparr>"

definition example_key :: string where
  "example_key = ''cpu_threshold_breach_host1''"

definition two_findings :: alert_manager where
  \<comment> \<open>a new manager after two \<^verbatim>\<open>process_alert\<close> calls with the same finding, at times 1 and 2\<close>
  "two_findings = snd (process_alert 2 example_finding (snd (process_alert 1 example_finding AlertManager_init)))"

definition stub_sklearn :: "(unit, unit) sklearn" where
  \<comment> \<open>a library instance for examples: no scaling, every point an inlier of score 0\<close>
  "stub_sklearn =
     \<lparr>IsolationForest = (\<lambda>contamination random_state n_estimators. ()),
      StandardScaler = (),
      fit_transform = (\<lambda>sc rows. (sc, Some rows)),
      transform = (\<lambda>sc rows. Some rows),
      fit = (\<lambda>md rows. (md, True)),
      decision_function = (\<lambda>md rows. Some (map (\<lambda>r. 0) rows)),
      predict = (\<lambda>md rows. Some (map (\<lambda>r. 1) rows))\<rparr>"

definition stale_example :: alert_manager where
  \<comment> \<open>a manager whose dict holds an alert already marked resolved at time 0, and the active example alert\<close>
  "stale_example =
     \<lparr>active_alerts =
        [(''disk_threshold_breach_host3'',
          (new_alert 0 ''disk_threshold_breach_host3'' ''disk_threshold_breach'' example_finding)
            \<lparr>status := ''resolved'', resolved_at := Some 0\<rparr>),
         (example_key, new_alert 1 example_key ''cpu_threshold_breach'' example_finding)],
      alert_history = []\<rparr>"

definition cpu_and_disk :: metrics where
  \<comment> \<open>a snapshot that breaches the cpu and the disk limit\<close>
  "cpu_and_disk = [''cpu'' \<mapsto> [''usage_percent'' \<mapsto> 96], ''disk'' \<mapsto> [''usage_percent'' \<mapsto> 99]]"

definition full_snapshot :: metrics where
  \<comment> \<open>a snapshot with the four groups, most fields missing\<close>
  "full_snapshot =
     [''cpu'' \<mapsto> [''usage_percent'' \<mapsto> 7], ''memory'' \<mapsto> [''usage_percent'' \<mapsto> 40],
      ''disk'' \<mapsto> Map.empty, ''network'' \<mapsto> [''packet_loss_percent'' \<mapsto> 2]]"

definition flagging_sklearn :: "(unit, unit) sklearn" where
  \<comment> \<open>a library instance for examples: every point an outlier of score \<open>-0.6\<close>\<close>
  "flagging_sklearn =
     \<lparr>IsolationForest = (\<lambda>contamination random_state n_estimators. ()),
      StandardScaler = (),
      fit_transform = (\<lambda>sc rows. (sc, Some rows)),
      transform = (\<lambda>sc rows. Some rows),
      fit = (\<lambda>md rows. (md, True)),
      decision_function = (\<lambda>md rows. Some (map (\<lambda>r. - 0.6) rows)),
      predict = (\<lambda>md rows. Some (map (\<lambda>r. - 1) rows))\<rparr>"

definition steady_engine :: "(unit, unit) engine" where
  \<comment> \<open>an initialized engine whose history holds 51 copies of one snapshot\<close>
  "steady_engine = (initialize flagging_sklearn AIEngine_init)
      \<lparr>historical_data := replicate 51 \<lparr>timestamp = 0, data = full_snapshot\<rparr>\<rparr>"

definition numbered_snapshots :: "nat \<Rightarrow> (time \<times> metrics) list" where
  \<comment> \<open>\<open>n\<close> snapshots, the \<open>i\<close>-th taken at time \<open>i\<close> with cpu usage \<open>i\<close>\<close>
  "numbered_snapshots n = map (\<lambda>i. (int i, [''cpu'' \<mapsto> [''usage_percent'' \<mapsto> real i]])) [0..<n]"

definition cpu_history :: "real list \<Rightarrow> entry list" where
  \<comment> \<open>a history of snapshots that hold a cpu group only, with the given usage values\<close>
  "cpu_history vs = map (\<lambda>v. \<lparr>timestamp = 0, data = [''cpu'' \<mapsto> [''usage_percent'' \<mapsto> v]]\<rparr>) vs"

definition engine_with :: "entry list \<Rightarrow> (unit, unit) engine" where
  \<comment> \<open>an initialized engine with the given history\<close>
  "engine_with h = (initialize stub_sklearn AIEngine_init)\<lparr>historical_data := h\<rparr>"

definition rising_cpu :: "real list" where
  "rising_cpu = [10, 10, 10, 10, 10, 10, 10, 10, 10, 10, 10, 10, 10, 10, 10, 45, 45, 45, 45, 45]"

definition flat_cpu :: "real list" where
  "flat_cpu = [10, 10, 10, 10, 10, 10, 10, 10, 10, 10, 10, 10, 10, 10, 10, 10, 10, 10, 10, 10]"

definition ramp_value :: "nat \<Rightarrow> real" where
  \<comment> \<open>memory usage of the \<open>i\<close>-th of 60 snapshots rising linearly from 10 to 70\<close>
  "ramp_value i = 10 + 60 * real i / 59"

definition ramp :: "nat \<Rightarrow> (time \<times> metrics) list" where
  \<comment> \<open>the first \<open>n\<close> snapshots of that run\<close>
  "ramp n = map (\<lambda>i. (int i, [''memory'' \<mapsto> [''usage_percent'' \<mapsto> ramp_value i]])) [0..<n]"


definition fifty_engine :: "(unit, unit) engine" where
  \<comment> \<open>an initialized engine whose history holds exactly 50 snapshots\<close>
  "fifty_engine = (initialize flagging_sklearn AIEngine_init)
      \<lparr>historical_data := replicate 50 \<lparr>timestamp = 0, data = full_snapshot\<rparr>\<rparr>"

definition thirty_engine :: "(unit, unit) engine" where
  \<comment> \<open>an initialized engine whose history holds exactly 30 snapshots\<close>
  "thirty_engine = (initialize flagging_sklearn AIEngine_init)
      \<lparr>historical_data := replicate 30 \<lparr>timestamp = 0, data = full_snapshot\<rparr>\<rparr>"

definition partial_snapshot :: metrics where
  \<comment> \<open>a snapshot without a cpu group\<close>
  "partial_snapshot = [''memory'' \<mapsto> [''usage_percent'' \<mapsto> 40], ''disk'' \<mapsto> [''io_wait_percent'' \<mapsto> 3]]"

subsection \<open>Feature vectors as specified\<close>

text \<open>The groups and fields of the two families, in the order the specification lists them.\<close>

definition system_fields :: "(string \<times> string list) list" where
  "system_fields =
     [(''cpu'', [''usage_percent'', ''load_avg_1m'', ''load_avg_5m'', ''context_switches'']),
      (''memory'', [''usage_percent'', ''available_mb'', ''swap_usage_percent'']),
      (''disk'', [''usage_percent'', ''read_bytes_per_sec'', ''write_bytes_per_sec'', ''io_wait_percent''])]"

definition network_fields :: "(string \<times> string list) list" where
  "network_fields =
     [(''network'', [''latency_ms'', ''packet_loss_percent'', ''bandwidth_usage_percent'',
                     ''connections_count'', ''bytes_sent_per_sec'', ''bytes_recv_per_sec''])]"

text \<open>
  The feature vector in the specification's words: for the groups of the family in their fixed
  order, the fields of each group that is present in their fixed order, a missing field
  counting 0; and absent when no group of the family is present.
\<close>

definition spec_feature_vector :: "(string \<times> string list) list \<Rightarrow> metrics \<Rightarrow> real list option" where
  "spec_feature_vector tbl m =
     (if \<forall>g \<in> set (map fst tbl). m g = None then None
      else Some (concat (map (\<lambda>(g, ks). case m g of
                                 None \<Rightarrow> []
                               | Some grp \<Rightarrow> map (\<lambda>k. case grp k of None \<Rightarrow> 0 | Some v \<Rightarrow> v) ks)
                             tbl)))"

section \<open>Properties of the alert manager\<close>

lemma two_findings_eval:
  "two_findings =
     \<lparr>active_alerts =
        [(example_key,
          (new_alert 1 example_key ''cpu_threshold_breach'' example_finding)\<lparr>last_seen := 2, count := 2\<rparr>)],
      alert_history = [new_alert 1 example_key ''cpu_threshold_breach'' example_finding]\<rparr>"
  by (simp add: two_findings_def example_finding_def example_key_def process_alert_def
      AlertManager_init_def make_alert_id_def new_alert_def Let_def)

lemma resolve_alert_absent:
  assumes "aid \<notin> fst ` set (active_alerts s)"
  shows "resolve_alert now aid s = (False, s)"
proof -
  from assms have "map_of (active_alerts s) aid = None"
    by (simp add: map_of_eq_None_iff)
  then show ?thesis
    by (simp add: resolve_alert_def)
qed

lemma resolve_alert_removes_key:
  "aid \<notin> fst ` set (active_alerts (snd (resolve_alert now aid s)))"
proof -
  have "map_of (active_alerts (snd (resolve_alert now aid s))) aid = None"
    by (simp add: resolve_alert_def Let_def AList.delete_conv split: option.splits)
  then show ?thesis
    by (simp add: map_of_eq_None_iff)
qed

text \<open>
  C1, evaluated on the code: after two \<^verbatim>\<open>process_alert\<close> calls with the same finding there is
  one active alert, of count 2, and \<^verbatim>\<open>resolve_alert\<close> on its key returns true and empties the
  active list. The history, however, holds only the copy made when the alert was created:
  status \<^verbatim>\<open>active\<close>, count 1 and no resolved-at stamp. The resolved alert is in no list.
\<close>

theorem resolve_alert_history_eval:
  "map count (get_active_alerts two_findings) = [2] \<and>
   fst (resolve_alert 3 example_key two_findings) \<and>
   get_active_alerts (snd (resolve_alert 3 example_key two_findings)) = [] \<and>
   map (\<lambda>a. (alert_id a, status a, count a, resolved_at a))
     (get_alert_history 100 (snd (resolve_alert 3 example_key two_findings)))
     = [(example_key, ''active'', 1, None)]"
  by (simp add: two_findings_eval resolve_alert_def get_active_alerts_def get_alert_history_def
      new_alert_def Let_def)

text \<open>
  C9: \<^verbatim>\<open>resolve_alert\<close> on a key that is not in \<^verbatim>\<open>active_alerts\<close> returns false and leaves
  the manager (active alerts and history) as it was; and a second \<^verbatim>\<open>resolve_alert\<close> on the
  same key, right after a first one, returns false whatever the first one returned.
\<close>

theorem resolve_alert_unknown_key:
  "(aid \<notin> fst ` set (active_alerts s) \<longrightarrow> resolve_alert now aid s = (False, s)) \<and>
   fst (resolve_alert now' aid (snd (resolve_alert now aid s))) = False"
  using resolve_alert_absent resolve_alert_removes_key by (metis fst_conv)

theorem resolve_alert_unknown_key_witness:
  "''memory_threshold_breach_host2'' \<notin> fst ` set (active_alerts two_findings) \<and>
   resolve_alert 3 ''memory_threshold_breach_host2'' two_findings = (False, two_findings) \<and>
   fst (resolve_alert 3 example_key two_findings) = True \<and>
   fst (resolve_alert 4 example_key (snd (resolve_alert 3 example_key two_findings))) = False"
proof -
  have absent: "''memory_threshold_breach_host2'' \<notin> fst ` set (active_alerts two_findings)"
    by (simp add: two_findings_eval example_key_def)
  have first: "fst (resolve_alert 3 example_key two_findings) = True"
    by (simp add: two_findings_eval resolve_alert_def)
  from absent first
    resolve_alert_unknown_key [of "''memory_threshold_breach_host2''" two_findings 3 3]
    resolve_alert_unknown_key [of example_key two_findings 3 4]
  show ?thesis by simp
qed

lemma set_fold_delete: "set (fold AList.delete ks al) = {p \<in> set al. fst p \<notin> set ks}"
  by (induction ks arbitrary: al) (auto simp: AList.delete_eq)


lemma cleanup_active_not_stale:
  assumes "a \<in> set (get_active_alerts (cleanup_old_alerts now s))"
  shows "\<not> is_stale now a"
proof
  assume stale: "is_stale now a"
  from assms obtain k where in_new: "(k, a) \<in> set (active_alerts (cleanup_old_alerts now s))"
    by (auto simp: get_active_alerts_def)
  then have in_old: "(k, a) \<in> set (active_alerts s)"
    and keep: "k \<notin> fst ` {p \<in> set (active_alerts s). is_stale now (snd p)}"
    by (auto simp: cleanup_old_alerts_def Let_def set_fold_delete image_iff split: prod.splits)
  from in_old stale keep show False by force
qed

lemma cleanup_history: "alert_history (cleanup_old_alerts now s) = alert_history s"
  by (simp add: cleanup_old_alerts_def Let_def)


lemma reachable_two_findings: "reachable two_findings"
  unfolding two_findings_def by (intro reachable.intros)

text \<open>
  The sweep at work on a dict that does hold a resolved alert older than 24 hours: that alert
  is deleted and the active one is kept.
\<close>

lemma cleanup_old_alerts_example:
  "map alert_id (get_active_alerts (cleanup_old_alerts (hours24 + 1) stale_example)) = [example_key]"
  by (simp add: stale_example_def cleanup_old_alerts_def is_stale_def new_alert_def hours24_def
      get_active_alerts_def example_key_def Let_def)




section \<open>Properties of the anomaly engine\<close>

subsection \<open>The engine's entry point\<close>

lemma array_truth_long: "3 \<le> length v \<Longrightarrow> array_truth v = Inl ValueError"
  by (cases v rule: remdups_adj.cases) (simp_all add: array_truth_def)

lemma system_features_long: "extract_system_features m = Some v \<Longrightarrow> 3 \<le> length v"
  by (auto simp: extract_system_features_def split: option.splits if_splits)

lemma network_features_long: "extract_network_features m = Some v \<Longrightarrow> 3 \<le> length v"
  by (auto simp: extract_network_features_def split: option.splits if_splits)

lemma system_step_raises:
  "system_step lib m e = (if extract_system_features m = None then (Some [], e) else (None, e))"
  by (auto simp: system_step_def dest!: system_features_long array_truth_long split: option.splits)

lemma network_step_raises:
  "network_step lib m e = (if extract_network_features m = None then (Some [], e) else (None, e))"
  by (auto simp: network_step_def dest!: network_features_long array_truth_long split: option.splits)

text \<open>
  Every feature vector that is not \<open>None\<close> has at least three entries, so the tests
  \<^verbatim>\<open>if system_features:\<close> and \<^verbatim>\<open>if network_features:\<close> raise whenever the snapshot has one of the
  four groups: \<^verbatim>\<open>detect_anomalies\<close> then returns \<^verbatim>\<open>[]\<close>, having only appended the snapshot to the
  history. The properties of the detectors below are properties of the detector methods.
\<close>

lemma detect_anomalies_with_groups:
  assumes "initialized e"
    and "m ''cpu'' \<noteq> None \<or> m ''memory'' \<noteq> None \<or> m ''disk'' \<noteq> None \<or> m ''network'' \<noteq> None"
  shows "detect_anomalies lib now m e =
           ([], e\<lparr>historical_data := deque_append (historical_data e) \<lparr>timestamp = now, data = m\<rparr>\<rparr>)"
proof -
  from assms(2) have "extract_system_features m \<noteq> None \<or> extract_network_features m \<noteq> None"
    by (auto simp: extract_system_features_def extract_network_features_def)
  with assms(1) show ?thesis
    by (auto simp: detect_anomalies_def Let_def system_step_raises network_step_raises)
qed

subsection \<open>Threshold detector\<close>

lemma thresholds_simps:
  "thresholds ''cpu_usage'' = Some 80" "thresholds ''memory_usage'' = Some 85"
  "thresholds ''disk_usage'' = Some 90" "thresholds ''network_latency'' = Some 200"
  by (simp_all add: thresholds_def)

lemma filter_breach:
  "filter (\<lambda>f. ftype f = ty) (case grp of None \<Rightarrow> [] | Some g \<Rightarrow>
       let v = get0 g k in if v > limit then [threshold_finding ty' (sev v) v limit d a] else [])
   = (if ty' = ty \<and> (\<exists>g. grp = Some g \<and> get0 g k > limit)
      then [threshold_finding ty' (sev (get0 (the grp) k)) (get0 (the grp) k) limit d a] else [])"
  by (cases grp) (simp_all add: threshold_finding_def Let_def)

lemma length_breach:
  "length (case grp of None \<Rightarrow> [] | Some g \<Rightarrow>
       let v = get0 g k in if v > limit then [threshold_finding ty' (sev v) v limit d a] else [])
   = (if \<exists>g. grp = Some g \<and> get0 g k > limit then 1 else 0)"
  by (cases grp) (simp_all add: Let_def)

lemma detect_threshold_anomalies_parts:
  "detect_threshold_anomalies m =
     (case m ''cpu'' of None \<Rightarrow> [] | Some g \<Rightarrow>
        let v = get0 g ''usage_percent'' in if v > 80
        then [threshold_finding ''cpu_threshold_breach'' ((\<lambda>v. if v > 95 then ''critical'' else ''high'') v) v 80
                ''CPU usage {}% exceeds threshold'' ''identify_cpu_intensive_processes''] else [])
   @ (case m ''memory'' of None \<Rightarrow> [] | Some g \<Rightarrow>
        let v = get0 g ''usage_percent'' in if v > 85
        then [threshold_finding ''memory_threshold_breach'' ((\<lambda>v. if v > 95 then ''critical'' else ''high'') v) v 85
                ''Memory usage {}% exceeds threshold'' ''free_memory_resources''] else [])
   @ (case m ''disk'' of None \<Rightarrow> [] | Some g \<Rightarrow>
        let v = get0 g ''usage_percent'' in if v > 90
        then [threshold_finding ''disk_threshold_breach'' ((\<lambda>v. if v > 98 then ''critical'' else ''high'') v) v 90
                ''Disk usage {}% exceeds threshold'' ''cleanup_disk_space''] else [])
   @ (case m ''network'' of None \<Rightarrow> [] | Some g \<Rightarrow>
        let v = get0 g ''latency_ms'' in if v > 200
        then [threshold_finding ''network_latency_high'' ((\<lambda>v. ''medium'') v) v 200
                ''Network latency {}ms exceeds threshold'' ''check_network_connectivity''] else [])"
  unfolding detect_threshold_anomalies_def thresholds_simps option.sel by (rule refl)

lemma cpu_breach:
  "filter (\<lambda>f. ftype f = ''cpu_threshold_breach'') (detect_threshold_anomalies m) =
     (if \<exists>g. m ''cpu'' = Some g \<and> get0 g ''usage_percent'' > 80
      then [threshold_finding ''cpu_threshold_breach''
              (if get0 (the (m ''cpu'')) ''usage_percent'' > 95 then ''critical'' else ''high'')
              (get0 (the (m ''cpu'')) ''usage_percent'') 80
              ''CPU usage {}% exceeds threshold'' ''identify_cpu_intensive_processes'']
      else [])"
  unfolding detect_threshold_anomalies_parts filter_append filter_breach by simp

lemma memory_breach_count:
  "length (filter (\<lambda>f. ftype f = ''memory_threshold_breach'') (detect_threshold_anomalies m)) =
     (if \<exists>g. m ''memory'' = Some g \<and> get0 g ''usage_percent'' > 85 then 1 else 0)"
  unfolding detect_threshold_anomalies_parts filter_append filter_breach by simp

lemma disk_breach_count:
  "length (filter (\<lambda>f. ftype f = ''disk_threshold_breach'') (detect_threshold_anomalies m)) =
     (if \<exists>g. m ''disk'' = Some g \<and> get0 g ''usage_percent'' > 90 then 1 else 0)"
  unfolding detect_threshold_anomalies_parts filter_append filter_breach by simp

lemma latency_breach_count:
  "length (filter (\<lambda>f. ftype f = ''network_latency_high'') (detect_threshold_anomalies m)) =
     (if \<exists>g. m ''network'' = Some g \<and> get0 g ''latency_ms'' > 200 then 1 else 0)"
  unfolding detect_threshold_anomalies_parts filter_append filter_breach by simp

lemma breach_count:
  "length (detect_threshold_anomalies m) =
     (if \<exists>g. m ''cpu'' = Some g \<and> get0 g ''usage_percent'' > 80 then 1 else 0) +
     (if \<exists>g. m ''memory'' = Some g \<and> get0 g ''usage_percent'' > 85 then 1 else 0) +
     (if \<exists>g. m ''disk'' = Some g \<and> get0 g ''usage_percent'' > 90 then 1 else 0) +
     (if \<exists>g. m ''network'' = Some g \<and> get0 g ''latency_ms'' > 200 then (1::nat) else 0)"
  unfolding detect_threshold_anomalies_parts length_append length_breach by (simp only: add.assoc)

text \<open>
  C5: for a snapshot with a \<^verbatim>\<open>cpu\<close> group, the threshold detector returns exactly one finding of
  type \<^verbatim>\<open>cpu_threshold_breach\<close>, of severity \<^verbatim>\<open>critical\<close>, when \<^verbatim>\<open>usage_percent\<close> is 96; exactly
  one, of severity \<^verbatim>\<open>high\<close>, when it is 82; and none when it is 50. Each of the four metrics
  yields its own finding: the number of findings of its type is 1 when its group is present
  and its value is over its limit (cpu 80, memory 85, disk 90, latency 200) and 0 otherwise,
  whatever the other groups hold, and the detector returns nothing else.
\<close>

theorem detect_threshold_anomalies_cpu:
  "(m ''cpu'' = Some cpu \<and> cpu ''usage_percent'' = Some 96 \<longrightarrow>
      (\<exists>f. filter (\<lambda>f. ftype f = ''cpu_threshold_breach'') (detect_threshold_anomalies m) = [f] \<and>
           severity f = ''critical'')) \<and>
   (m ''cpu'' = Some cpu \<and> cpu ''usage_percent'' = Some 82 \<longrightarrow>
      (\<exists>f. filter (\<lambda>f. ftype f = ''cpu_threshold_breach'') (detect_threshold_anomalies m) = [f] \<and>
           severity f = ''high'')) \<and>
   (m ''cpu'' = Some cpu \<and> cpu ''usage_percent'' = Some 50 \<longrightarrow>
      filter (\<lambda>f. ftype f = ''cpu_threshold_breach'') (detect_threshold_anomalies m) = []) \<and>
   length (filter (\<lambda>f. ftype f = ''cpu_threshold_breach'') (detect_threshold_anomalies m)) =
     (if \<exists>g. m ''cpu'' = Some g \<and> get0 g ''usage_percent'' > 80 then 1 else 0) \<and>
   length (filter (\<lambda>f. ftype f = ''memory_threshold_breach'') (detect_threshold_anomalies m)) =
     (if \<exists>g. m ''memory'' = Some g \<and> get0 g ''usage_percent'' > 85 then 1 else 0) \<and>
   length (filter (\<lambda>f. ftype f = ''disk_threshold_breach'') (detect_threshold_anomalies m)) =
     (if \<exists>g. m ''disk'' = Some g \<and> get0 g ''usage_percent'' > 90 then 1 else 0) \<and>
   length (filter (\<lambda>f. ftype f = ''network_latency_high'') (detect_threshold_anomalies m)) =
     (if \<exists>g. m ''network'' = Some g \<and> get0 g ''latency_ms'' > 200 then 1 else 0) \<and>
   length (detect_threshold_anomalies m) =
     (if \<exists>g. m ''cpu'' = Some g \<and> get0 g ''usage_percent'' > 80 then 1 else 0) +
     (if \<exists>g. m ''memory'' = Some g \<and> get0 g ''usage_percent'' > 85 then 1 else 0) +
     (if \<exists>g. m ''disk'' = Some g \<and> get0 g ''usage_percent'' > 90 then 1 else 0) +
     (if \<exists>g. m ''network'' = Some g \<and> get0 g ''latency_ms'' > 200 then (1::nat) else 0)"
proof (intro conjI impI)
  assume "m ''cpu'' = Some cpu \<and> cpu ''usage_percent'' = Some 96"
  then show "\<exists>f. filter (\<lambda>f. ftype f = ''cpu_threshold_breach'') (detect_threshold_anomalies m) = [f] \<and>
           severity f = ''critical''"
    by (simp add: cpu_breach get0_def threshold_finding_def)
next
  assume "m ''cpu'' = Some cpu \<and> cpu ''usage_percent'' = Some 82"
  then show "\<exists>f. filter (\<lambda>f. ftype f = ''cpu_threshold_breach'') (detect_threshold_anomalies m) = [f] \<and>
           severity f = ''high''"
    by (simp add: cpu_breach get0_def threshold_finding_def)
next
  assume "m ''cpu'' = Some cpu \<and> cpu ''usage_percent'' = Some 50"
  then show "filter (\<lambda>f. ftype f = ''cpu_threshold_breach'') (detect_threshold_anomalies m) = []"
    by (simp add: cpu_breach get0_def)
next
  show "length (filter (\<lambda>f. ftype f = ''cpu_threshold_breach'') (detect_threshold_anomalies m)) =
     (if \<exists>g. m ''cpu'' = Some g \<and> get0 g ''usage_percent'' > 80 then 1 else 0)"
    by (simp add: cpu_breach)
qed (rule memory_breach_count disk_breach_count latency_breach_count breach_count)+

theorem detect_threshold_anomalies_cpu_witness:
  "cpu_and_disk ''cpu'' = Some [''usage_percent'' \<mapsto> 96] \<and>
   [''usage_percent'' \<mapsto> 96::real] ''usage_percent'' = Some 96 \<and>
   (\<exists>f. filter (\<lambda>f. ftype f = ''cpu_threshold_breach'') (detect_threshold_anomalies cpu_and_disk) = [f] \<and>
        severity f = ''critical'') \<and>
   length (filter (\<lambda>f. ftype f = ''disk_threshold_breach'') (detect_threshold_anomalies cpu_and_disk)) = 1 \<and>
   length (detect_threshold_anomalies cpu_and_disk) = 2"
proof -
  have h: "cpu_and_disk ''cpu'' = Some [''usage_percent'' \<mapsto> 96] \<and>
      [''usage_percent'' \<mapsto> 96::real] ''usage_percent'' = Some 96"
    by (simp add: cpu_and_disk_def)
  have d: "cpu_and_disk ''disk'' = Some [''usage_percent'' \<mapsto> 99]"
    "cpu_and_disk ''memory'' = None" "cpu_and_disk ''network'' = None"
    by (simp_all add: cpu_and_disk_def)
  from h d detect_threshold_anomalies_cpu [of cpu_and_disk "[''usage_percent'' \<mapsto> 96]"]
  show ?thesis by (simp add: get0_def)
qed

subsection \<open>Feature extraction\<close>

text \<open>
  C6 as stated fails for the system family: the vector is not of a fixed length, and a
  position does not have a fixed meaning. A snapshot with only a \<^verbatim>\<open>memory\<close> group gives three
  numbers, memory usage first; one with the three groups gives eleven, cpu usage first.
\<close>

theorem extract_features_counterexample:
  "extract_system_features [''memory'' \<mapsto> [''usage_percent'' \<mapsto> 40]] = Some [40, 0, 0] \<and>
   extract_system_features
      [''cpu'' \<mapsto> [''usage_percent'' \<mapsto> 7], ''memory'' \<mapsto> [''usage_percent'' \<mapsto> 40],
       ''disk'' \<mapsto> Map.empty]
     = Some [7, 0, 0, 0, 40, 0, 0, 0, 0, 0, 0]"
  by (simp add: extract_system_features_def get0_def)

lemma extract_system_features_spec:
  "extract_system_features m = spec_feature_vector system_fields m"
  by (simp add: extract_system_features_def spec_feature_vector_def system_fields_def get0_def
      split: option.splits)

lemma extract_network_features_spec:
  "extract_network_features m = spec_feature_vector network_fields m"
  by (simp add: extract_network_features_def spec_feature_vector_def network_fields_def get0_def
      split: option.splits)

text \<open>
  C6 as amended: extraction returns \<open>None\<close> exactly when the snapshot has none of the groups of
  the family (cpu, memory, disk; network). Otherwise the system vector is the concatenation,
  in the order cpu, memory, disk, of the blocks of the groups that are present, 4 numbers for
  cpu, 3 for memory and 4 for disk, each block in its fixed field order, so it has the eleven
  fields in their fixed order when the three groups are present; the network vector always
  has its six fields in their fixed order. A field missing from a present group is 0 at its
  position. Both extractors compute the vector the specification describes
  (\<open>spec_feature_vector\<close>).
\<close>

theorem extract_features_blocks:
  "(extract_system_features m = None \<longleftrightarrow> m ''cpu'' = None \<and> m ''memory'' = None \<and> m ''disk'' = None) \<and>
   (extract_network_features m = None \<longleftrightarrow> m ''network'' = None) \<and>
   (\<forall>v. extract_system_features m = Some v \<longrightarrow>
        v = (case m ''cpu'' of
               None \<Rightarrow> []
             | Some c \<Rightarrow> [get0 c ''usage_percent'', get0 c ''load_avg_1m'', get0 c ''load_avg_5m'',
                          get0 c ''context_switches''])
          @ (case m ''memory'' of
               None \<Rightarrow> []
             | Some me \<Rightarrow> [get0 me ''usage_percent'', get0 me ''available_mb'',
                           get0 me ''swap_usage_percent''])
          @ (case m ''disk'' of
               None \<Rightarrow> []
             | Some d \<Rightarrow> [get0 d ''usage_percent'', get0 d ''read_bytes_per_sec'',
                          get0 d ''write_bytes_per_sec'', get0 d ''io_wait_percent''])) \<and>
   extract_system_features m = spec_feature_vector system_fields m \<and>
   extract_network_features m = spec_feature_vector network_fields m \<and>
   (\<forall>v. extract_system_features m = Some v \<longrightarrow>
        length v = (if m ''cpu'' = None then 0 else 4) + (if m ''memory'' = None then 0 else 3)
                   + (if m ''disk'' = None then 0 else 4)) \<and>
   (\<forall>c me d. m ''cpu'' = Some c \<and> m ''memory'' = Some me \<and> m ''disk'' = Some d \<longrightarrow>
        extract_system_features m =
          Some [get0 c ''usage_percent'', get0 c ''load_avg_1m'', get0 c ''load_avg_5m'',
                get0 c ''context_switches'',
                get0 me ''usage_percent'', get0 me ''available_mb'', get0 me ''swap_usage_percent'',
                get0 d ''usage_percent'', get0 d ''read_bytes_per_sec'', get0 d ''write_bytes_per_sec'',
                get0 d ''io_wait_percent'']) \<and>
   (\<forall>n. m ''network'' = Some n \<longrightarrow>
        extract_network_features m =
          Some [get0 n ''latency_ms'', get0 n ''packet_loss_percent'', get0 n ''bandwidth_usage_percent'',
                get0 n ''connections_count'', get0 n ''bytes_sent_per_sec'', get0 n ''bytes_recv_per_sec'']) \<and>
   (\<forall>g k. (g k = None \<longrightarrow> get0 g k = 0) \<and> (\<forall>x. g k = Some x \<longrightarrow> get0 g k = x))"
proof -
  have some: "(if F = [] then None else Some F) = Some v \<Longrightarrow> v = F" for F v :: "real list"
    by (simp split: if_splits)
  have blocks: "\<forall>v. extract_system_features m = Some v \<longrightarrow>
        v = (case m ''cpu'' of
               None \<Rightarrow> []
             | Some c \<Rightarrow> [get0 c ''usage_percent'', get0 c ''load_avg_1m'', get0 c ''load_avg_5m'',
                          get0 c ''context_switches''])
          @ (case m ''memory'' of
               None \<Rightarrow> []
             | Some me \<Rightarrow> [get0 me ''usage_percent'', get0 me ''available_mb'',
                           get0 me ''swap_usage_percent''])
          @ (case m ''disk'' of
               None \<Rightarrow> []
             | Some d \<Rightarrow> [get0 d ''usage_percent'', get0 d ''read_bytes_per_sec'',
                          get0 d ''write_bytes_per_sec'', get0 d ''io_wait_percent''])"
    unfolding extract_system_features_def Let_def by (intro allI impI) (erule some)
  have c1: "extract_system_features m = None \<longleftrightarrow> m ''cpu'' = None \<and> m ''memory'' = None \<and> m ''disk'' = None"
    by (auto simp: extract_system_features_def split: option.splits)
  have c2: "extract_network_features m = None \<longleftrightarrow> m ''network'' = None"
    by (auto simp: extract_network_features_def split: option.splits)
  have c6: "\<forall>v. extract_system_features m = Some v \<longrightarrow>
        length v = (if m ''cpu'' = None then 0 else 4) + (if m ''memory'' = None then 0 else 3)
                   + (if m ''disk'' = None then 0 else 4)"
    by (auto simp: extract_system_features_def split: option.splits)
  have c7: "\<forall>c me d. m ''cpu'' = Some c \<and> m ''memory'' = Some me \<and> m ''disk'' = Some d \<longrightarrow>
        extract_system_features m =
          Some [get0 c ''usage_percent'', get0 c ''load_avg_1m'', get0 c ''load_avg_5m'',
                get0 c ''context_switches'',
                get0 me ''usage_percent'', get0 me ''available_mb'', get0 me ''swap_usage_percent'',
                get0 d ''usage_percent'', get0 d ''read_bytes_per_sec'', get0 d ''write_bytes_per_sec'',
                get0 d ''io_wait_percent'']"
    by (simp add: extract_system_features_def)
  have c8: "\<forall>n. m ''network'' = Some n \<longrightarrow>
        extract_network_features m =
          Some [get0 n ''latency_ms'', get0 n ''packet_loss_percent'', get0 n ''bandwidth_usage_percent'',
                get0 n ''connections_count'', get0 n ''bytes_sent_per_sec'', get0 n ''bytes_recv_per_sec'']"
    by (simp add: extract_network_features_def)
  have c9: "\<forall>g k. (g k = None \<longrightarrow> get0 g k = 0) \<and> (\<forall>x. g k = Some x \<longrightarrow> get0 g k = x)"
    by (simp add: get0_def)
  from c1 c2 blocks extract_system_features_spec [of m] extract_network_features_spec [of m] c6 c7 c8 c9
  show ?thesis by (intro conjI)
qed

theorem extract_features_blocks_witness:
  "full_snapshot ''cpu'' = Some [''usage_percent'' \<mapsto> 7] \<and>
   full_snapshot ''memory'' = Some [''usage_percent'' \<mapsto> 40] \<and>
   full_snapshot ''disk'' = Some Map.empty \<and>
   full_snapshot ''network'' = Some [''packet_loss_percent'' \<mapsto> 2] \<and>
   extract_system_features full_snapshot = Some [7, 0, 0, 0, 40, 0, 0, 0, 0, 0, 0] \<and>
   extract_network_features full_snapshot = Some [0, 2, 0, 0, 0, 0] \<and>
   extract_system_features partial_snapshot = Some [40, 0, 0, 0, 0, 0, 3] \<and>
   spec_feature_vector system_fields partial_snapshot = Some [40, 0, 0, 0, 0, 0, 3]"
proof -
  have g: "full_snapshot ''cpu'' = Some [''usage_percent'' \<mapsto> 7]"
    "full_snapshot ''memory'' = Some [''usage_percent'' \<mapsto> 40]"
    "full_snapshot ''disk'' = Some Map.empty"
    "full_snapshot ''network'' = Some [''packet_loss_percent'' \<mapsto> 2]"
    by (simp_all add: full_snapshot_def)
  have p: "extract_system_features partial_snapshot = Some [40, 0, 0, 0, 0, 0, 3]"
    by (simp add: extract_system_features_def partial_snapshot_def get0_def)
  have sys: "extract_system_features full_snapshot = Some [7, 0, 0, 0, 40, 0, 0, 0, 0, 0, 0]"
    using extract_features_blocks [of full_snapshot, THEN conjunct2, THEN conjunct2, THEN conjunct2, THEN conjunct2,
        THEN conjunct2, THEN conjunct2, THEN conjunct1, rule_format,
        OF conjI [OF g(1) conjI [OF g(2) g(3)]]]
    by (simp add: get0_def)
  have net: "extract_network_features full_snapshot = Some [0, 2, 0, 0, 0, 0]"
    using extract_features_blocks [of full_snapshot, THEN conjunct2, THEN conjunct2, THEN conjunct2, THEN conjunct2,
        THEN conjunct2, THEN conjunct2, THEN conjunct2, THEN conjunct1, rule_format, OF g(4)]
    by (simp add: get0_def)
  have spec: "spec_feature_vector system_fields partial_snapshot = Some [40, 0, 0, 0, 0, 0, 3]"
    using extract_features_blocks [of partial_snapshot, THEN conjunct2, THEN conjunct2, THEN conjunct2, THEN conjunct1] p
    by simp
  from g p sys net spec show ?thesis by (intro conjI)
qed

subsection \<open>Outlier-model detectors\<close>

lemma refit_and_score_history:
  "historical_data (snd (refit_and_score lib family training features e)) = historical_data e \<and>
   initialized (snd (refit_and_score lib family training features e)) = initialized e"
  by (simp add: refit_and_score_def Let_def split: option.splits prod.splits bool.splits list.splits)

lemma detect_system_snd:
  "snd (detect_system_anomalies lib features e) =
     (if length (historical_data e) > 50 \<and>
         length (List.map_filter (\<lambda>en. extract_system_features (data en)) (last_n 50 (historical_data e))) > 10
      then snd (refit_and_score lib ''system_metrics''
                  (List.map_filter (\<lambda>en. extract_system_features (data en)) (last_n 50 (historical_data e)))
                  features e)
      else e)"
  by (simp add: detect_system_anomalies_def Let_def case_prod_beta split: option.splits)

lemma detect_system_history:
  "historical_data (snd (detect_system_anomalies lib features e)) = historical_data e \<and>
   initialized (snd (detect_system_anomalies lib features e)) = initialized e"
  by (simp add: detect_system_snd refit_and_score_history)

lemma detect_network_snd:
  "snd (detect_network_anomalies lib features e) =
     (if length (historical_data e) > 30 \<and>
         length (List.map_filter (\<lambda>en. extract_network_features (data en)) (last_n 30 (historical_data e))) > 10
      then snd (refit_and_score lib ''network_metrics''
                  (List.map_filter (\<lambda>en. extract_network_features (data en)) (last_n 30 (historical_data e)))
                  features e)
      else e)"
  by (simp add: detect_network_anomalies_def Let_def case_prod_beta split: option.splits)

lemma detect_network_history:
  "historical_data (snd (detect_network_anomalies lib features e)) = historical_data e \<and>
   initialized (snd (detect_network_anomalies lib features e)) = initialized e"
  by (simp add: detect_network_snd refit_and_score_history)

lemma detect_system_cases:
  "fst (detect_system_anomalies lib features e) =
     (if length (historical_data e) > 50 \<and>
         length (List.map_filter (\<lambda>en. extract_system_features (data en)) (last_n 50 (historical_data e))) > 10
      then (case fst (refit_and_score lib ''system_metrics''
                  (List.map_filter (\<lambda>en. extract_system_features (data en)) (last_n 50 (historical_data e)))
                  features e) of
              None \<Rightarrow> []
            | Some (label, sc) \<Rightarrow>
                if label = - 1
                then [outlier_finding ''system_anomaly'' (- 0.5)
                        ''Unusual system behavior detected by ML model''
                        ''investigate_system_resources'' sc]
                else [])
      else [])"
  by (simp add: detect_system_anomalies_def Let_def case_prod_beta split: option.splits)

lemma detect_network_cases:
  "fst (detect_network_anomalies lib features e) =
     (if length (historical_data e) > 30 \<and>
         length (List.map_filter (\<lambda>en. extract_network_features (data en)) (last_n 30 (historical_data e))) > 10
      then (case fst (refit_and_score lib ''network_metrics''
                  (List.map_filter (\<lambda>en. extract_network_features (data en)) (last_n 30 (historical_data e)))
                  features e) of
              None \<Rightarrow> []
            | Some (label, sc) \<Rightarrow>
                if label = - 1
                then [outlier_finding ''network_anomaly'' (- 0.3)
                        ''Unusual network behavior detected''
                        ''check_network_connectivity'' sc]
                else [])
      else [])"
  by (simp add: detect_network_anomalies_def Let_def case_prod_beta split: option.splits)

lemma last_n_replicate: "last_n k (replicate n x) = replicate (min k n) x"
  by (simp add: last_n_def min_def)

lemma map_filter_replicate:
  "List.map_filter f (replicate n x) = (case f x of None \<Rightarrow> [] | Some y \<Rightarrow> replicate n y)"
  by (induction n) (simp_all split: option.splits)

lemma outlier_case_member:
  "f \<in> set (case r of None \<Rightarrow> [] | Some (label, sc) \<Rightarrow>
              if label = (- 1 :: int) then [outlier_finding ty bnd d a sc] else [])
   \<Longrightarrow> \<exists>sc. f = outlier_finding ty bnd d a sc"
  by (cases r) (auto split: if_splits)

lemma outlier_finding_severity:
  "score (outlier_finding ty bnd d a sc) = Some sc \<and>
   (severity (outlier_finding ty bnd d a sc) = ''high'' \<longleftrightarrow> sc < bnd) \<and>
   (severity (outlier_finding ty bnd d a sc) = ''medium'' \<longleftrightarrow> \<not> sc < bnd)"
  by (simp add: outlier_finding_def)

lemma detect_system_member:
  assumes "f \<in> set (fst (detect_system_anomalies lib features e))"
  shows "\<exists>sc. f = outlier_finding ''system_anomaly'' (- 0.5)
                 ''Unusual system behavior detected by ML model''
                 ''investigate_system_resources'' sc"
proof (cases "length (historical_data e) > 50 \<and>
         length (List.map_filter (\<lambda>en. extract_system_features (data en)) (last_n 50 (historical_data e))) > 10")
  case True
  with assms show ?thesis
    by (simp only: detect_system_cases simp_thms if_True) (erule outlier_case_member)
next
  case False
  with assms show ?thesis
    by (simp only: detect_system_cases if_False) simp
qed

lemma detect_network_member:
  assumes "f \<in> set (fst (detect_network_anomalies lib features e))"
  shows "\<exists>sc. f = outlier_finding ''network_anomaly'' (- 0.3)
                 ''Unusual network behavior detected''
                 ''check_network_connectivity'' sc"
proof (cases "length (historical_data e) > 30 \<and>
         length (List.map_filter (\<lambda>en. extract_network_features (data en)) (last_n 30 (historical_data e))) > 10")
  case True
  with assms show ?thesis
    by (simp only: detect_network_cases simp_thms if_True) (erule outlier_case_member)
next
  case False
  with assms show ?thesis
    by (simp only: detect_network_cases if_False) simp
qed

lemma refit_and_score_calls:
  assumes "scalers e family = Some sc"
    and "fit_transform lib sc training = (sc', Some scaled)"
    and "anomaly_models e family = Some md"
    and "fit lib md scaled = (md', True)"
    and "transform lib sc' [features] = Some sf"
    and "decision_function lib md' sf = Some (s # ss)"
    and "predict lib md' sf = Some (l # ls)"
  shows "refit_and_score lib family training features e =
           (Some (l, s), e\<lparr>scalers := (scalers e)(family \<mapsto> sc'),
                            anomaly_models := (anomaly_models e)(family \<mapsto> md')\<rparr>)"
  using assms by (simp add: refit_and_score_def Let_def)

lemma detect_system_refit:
  assumes "50 < length (historical_data e)"
    and "10 < length (List.map_filter (\<lambda>en. extract_system_features (data en)) (last_n 50 (historical_data e)))"
    and "scalers e ''system_metrics'' = Some sc"
    and "fit_transform lib sc
           (List.map_filter (\<lambda>en. extract_system_features (data en)) (last_n 50 (historical_data e)))
         = (sc', Some scaled)"
    and "anomaly_models e ''system_metrics'' = Some md"
    and "fit lib md scaled = (md', True)"
    and "transform lib sc' [features] = Some sf"
    and "decision_function lib md' sf = Some (s # ss)"
    and "predict lib md' sf = Some (l # ls)"
  shows "detect_system_anomalies lib features e =
           (if l = - 1
            then [outlier_finding ''system_anomaly'' (- 0.5)
                    ''Unusual system behavior detected by ML model''
                    ''investigate_system_resources'' s]
            else [],
            e\<lparr>scalers := (scalers e)(''system_metrics'' \<mapsto> sc'),
              anomaly_models := (anomaly_models e)(''system_metrics'' \<mapsto> md')\<rparr>)"
  using assms(1,2) refit_and_score_calls [OF assms(3-9)]
  by (simp add: detect_system_anomalies_def Let_def)

lemma detect_network_refit:
  assumes "30 < length (historical_data e)"
    and "10 < length (List.map_filter (\<lambda>en. extract_network_features (data en)) (last_n 30 (historical_data e)))"
    and "scalers e ''network_metrics'' = Some sc"
    and "fit_transform lib sc
           (List.map_filter (\<lambda>en. extract_network_features (data en)) (last_n 30 (historical_data e)))
         = (sc', Some scaled)"
    and "anomaly_models e ''network_metrics'' = Some md"
    and "fit lib md scaled = (md', True)"
    and "transform lib sc' [features] = Some sf"
    and "decision_function lib md' sf = Some (s # ss)"
    and "predict lib md' sf = Some (l # ls)"
  shows "detect_network_anomalies lib features e =
           (if l = - 1
            then [outlier_finding ''network_anomaly'' (- 0.3)
                    ''Unusual network behavior detected''
                    ''check_network_connectivity'' s]
            else [],
            e\<lparr>scalers := (scalers e)(''network_metrics'' \<mapsto> sc'),
              anomaly_models := (anomaly_models e)(''network_metrics'' \<mapsto> md')\<rparr>)"
  using assms(1,2) refit_and_score_calls [OF assms(3-9)]
  by (simp add: detect_network_anomalies_def Let_def)

lemma full_net: "extract_network_features full_snapshot = Some [0, 2, 0, 0, 0, 0]"
  by (simp add: extract_network_features_def full_snapshot_def get0_def)

text \<open>
  C7 as stated fails at the minimum depth itself: the guards are \<^verbatim>\<open>len(self.historical_data) > 50\<close>
  and \<^verbatim>\<open>> 30\<close>, so with exactly 50 (30) snapshots buffered nothing is refit and no finding is
  returned, also with a library whose refit model labels every vector an outlier.
\<close>

theorem outlier_detectors_counterexample:
  "length (historical_data fifty_engine) = 50 \<and>
   fst (refit_and_score flagging_sklearn ''system_metrics''
          (List.map_filter (\<lambda>en. extract_system_features (data en)) (last_n 50 (historical_data fifty_engine)))
          [96, 0, 0, 0, 40, 0, 0, 0, 0, 0, 0] fifty_engine) = Some (- 1, - 0.6) \<and>
   fst (detect_system_anomalies flagging_sklearn [96, 0, 0, 0, 40, 0, 0, 0, 0, 0, 0] fifty_engine) = [] \<and>
   length (historical_data thirty_engine) = 30 \<and>
   fst (refit_and_score flagging_sklearn ''network_metrics''
          (List.map_filter (\<lambda>en. extract_network_features (data en)) (last_n 30 (historical_data thirty_engine)))
          [250, 2, 0, 0, 0, 0] thirty_engine) = Some (- 1, - 0.6) \<and>
   fst (detect_network_anomalies flagging_sklearn [250, 2, 0, 0, 0, 0] thirty_engine) = []"
proof -
  have "fst (refit_and_score flagging_sklearn ''system_metrics'' tr
          [96, 0, 0, 0, 40, 0, 0, 0, 0, 0, 0] fifty_engine) = Some (- 1, - 0.6)" for tr
    by (simp add: refit_and_score_def fifty_engine_def initialize_def flagging_sklearn_def AIEngine_init_def)
  moreover have "fst (refit_and_score flagging_sklearn ''network_metrics'' tr
          [250, 2, 0, 0, 0, 0] thirty_engine) = Some (- 1, - 0.6)" for tr
    by (simp add: refit_and_score_def thirty_engine_def initialize_def flagging_sklearn_def AIEngine_init_def)
  moreover have "length (historical_data fifty_engine) = 50" "length (historical_data thirty_engine) = 30"
    by (simp_all add: fifty_engine_def thirty_engine_def)
  moreover have "fst (detect_system_anomalies flagging_sklearn [96, 0, 0, 0, 40, 0, 0, 0, 0, 0, 0] fifty_engine) = []"
    by (simp add: detect_system_cases fifty_engine_def)
  moreover have "fst (detect_network_anomalies flagging_sklearn [250, 2, 0, 0, 0, 0] thirty_engine) = []"
    by (simp add: detect_network_cases thirty_engine_def)
  ultimately show ?thesis by blast
qed

text \<open>
  C7 as amended: the system (network) detector returns no finding when at most 50 (30)
  snapshots are buffered, or when at most 10 of the last 50 (30) give a feature vector. When
  more are, the scaler is refit on those vectors, the model is refit on the scaled vectors,
  and the current vector is transformed and scored by the refit scaler and model; if that
  model labels it \<open>-1\<close>, exactly one finding is returned, carrying the score, of severity
  \<^verbatim>\<open>high\<close> if the score is below \<open>-0.5\<close> (\<open>-0.3\<close> for network) and \<^verbatim>\<open>medium\<close> otherwise; with
  any other label none is returned. The engine keeps the refit scaler and model. Every
  finding either detector returns has its severity set by that rule.
\<close>

theorem outlier_detectors_refit_severity:
  "(length (historical_data e) \<le> 50 \<longrightarrow> fst (detect_system_anomalies lib features e) = []) \<and>
   (length (historical_data e) \<le> 30 \<longrightarrow> fst (detect_network_anomalies lib features e) = []) \<and>
   (length (List.map_filter (\<lambda>en. extract_system_features (data en)) (last_n 50 (historical_data e))) \<le> 10
      \<longrightarrow> fst (detect_system_anomalies lib features e) = []) \<and>
   (length (List.map_filter (\<lambda>en. extract_network_features (data en)) (last_n 30 (historical_data e))) \<le> 10
      \<longrightarrow> fst (detect_network_anomalies lib features e) = []) \<and>
   (\<forall>sc sc' scaled md md' sf s ss l ls.
      50 < length (historical_data e) \<and>
      10 < length (List.map_filter (\<lambda>en. extract_system_features (data en)) (last_n 50 (historical_data e))) \<and>
      scalers e ''system_metrics'' = Some sc \<and>
      fit_transform lib sc
        (List.map_filter (\<lambda>en. extract_system_features (data en)) (last_n 50 (historical_data e)))
        = (sc', Some scaled) \<and>
      anomaly_models e ''system_metrics'' = Some md \<and>
      fit lib md scaled = (md', True) \<and>
      transform lib sc' [features] = Some sf \<and>
      decision_function lib md' sf = Some (s # ss) \<and>
      predict lib md' sf = Some (l # ls) \<longrightarrow>
        (l = - 1 \<longrightarrow>
           (\<exists>f. fst (detect_system_anomalies lib features e) = [f] \<and> ftype f = ''system_anomaly'' \<and>
                score f = Some s \<and> (severity f = ''high'' \<longleftrightarrow> s < - 0.5) \<and>
                (severity f = ''medium'' \<longleftrightarrow> \<not> s < - 0.5))) \<and>
        (l \<noteq> - 1 \<longrightarrow> fst (detect_system_anomalies lib features e) = []) \<and>
        scalers (snd (detect_system_anomalies lib features e)) ''system_metrics'' = Some sc' \<and>
        anomaly_models (snd (detect_system_anomalies lib features e)) ''system_metrics'' = Some md') \<and>
   (\<forall>sc sc' scaled md md' sf s ss l ls.
      30 < length (historical_data e) \<and>
      10 < length (List.map_filter (\<lambda>en. extract_network_features (data en)) (last_n 30 (historical_data e))) \<and>
      scalers e ''network_metrics'' = Some sc \<and>
      fit_transform lib sc
        (List.map_filter (\<lambda>en. extract_network_features (data en)) (last_n 30 (historical_data e)))
        = (sc', Some scaled) \<and>
      anomaly_models e ''network_metrics'' = Some md \<and>
      fit lib md scaled = (md', True) \<and>
      transform lib sc' [features] = Some sf \<and>
      decision_function lib md' sf = Some (s # ss) \<and>
      predict lib md' sf = Some (l # ls) \<longrightarrow>
        (l = - 1 \<longrightarrow>
           (\<exists>f. fst (detect_network_anomalies lib features e) = [f] \<and> ftype f = ''network_anomaly'' \<and>
                score f = Some s \<and> (severity f = ''high'' \<longleftrightarrow> s < - 0.3) \<and>
                (severity f = ''medium'' \<longleftrightarrow> \<not> s < - 0.3))) \<and>
        (l \<noteq> - 1 \<longrightarrow> fst (detect_network_anomalies lib features e) = []) \<and>
        scalers (snd (detect_network_anomalies lib features e)) ''network_metrics'' = Some sc' \<and>
        anomaly_models (snd (detect_network_anomalies lib features e)) ''network_metrics'' = Some md') \<and>
   (\<forall>f \<in> set (fst (detect_system_anomalies lib features e)).
      \<exists>sc. score f = Some sc \<and> (severity f = ''high'' \<longleftrightarrow> sc < - 0.5) \<and>
           (severity f = ''medium'' \<longleftrightarrow> \<not> sc < - 0.5)) \<and>
   (\<forall>f \<in> set (fst (detect_network_anomalies lib features e)).
      \<exists>sc. score f = Some sc \<and> (severity f = ''high'' \<longleftrightarrow> sc < - 0.3) \<and>
           (severity f = ''medium'' \<longleftrightarrow> \<not> sc < - 0.3))"
proof -
  have g1: "length (historical_data e) \<le> 50 \<longrightarrow> fst (detect_system_anomalies lib features e) = []"
    by (simp add: detect_system_cases)
  have g2: "length (historical_data e) \<le> 30 \<longrightarrow> fst (detect_network_anomalies lib features e) = []"
    by (simp add: detect_network_cases)
  have g3: "length (List.map_filter (\<lambda>en. extract_system_features (data en)) (last_n 50 (historical_data e))) \<le> 10
      \<longrightarrow> fst (detect_system_anomalies lib features e) = []"
    by (simp add: detect_system_cases)
  have g4: "length (List.map_filter (\<lambda>en. extract_network_features (data en)) (last_n 30 (historical_data e))) \<le> 10
      \<longrightarrow> fst (detect_network_anomalies lib features e) = []"
    by (simp add: detect_network_cases)
  have r1: "\<forall>sc sc' scaled md md' sf s ss l ls.
      50 < length (historical_data e) \<and>
      10 < length (List.map_filter (\<lambda>en. extract_system_features (data en)) (last_n 50 (historical_data e))) \<and>
      scalers e ''system_metrics'' = Some sc \<and>
      fit_transform lib sc
        (List.map_filter (\<lambda>en. extract_system_features (data en)) (last_n 50 (historical_data e)))
        = (sc', Some scaled) \<and>
      anomaly_models e ''system_metrics'' = Some md \<and>
      fit lib md scaled = (md', True) \<and>
      transform lib sc' [features] = Some sf \<and>
      decision_function lib md' sf = Some (s # ss) \<and>
      predict lib md' sf = Some (l # ls) \<longrightarrow>
        (l = - 1 \<longrightarrow>
           (\<exists>f. fst (detect_system_anomalies lib features e) = [f] \<and> ftype f = ''system_anomaly'' \<and>
                score f = Some s \<and> (severity f = ''high'' \<longleftrightarrow> s < - 0.5) \<and>
                (severity f = ''medium'' \<longleftrightarrow> \<not> s < - 0.5))) \<and>
        (l \<noteq> - 1 \<longrightarrow> fst (detect_system_anomalies lib features e) = []) \<and>
        scalers (snd (detect_system_anomalies lib features e)) ''system_metrics'' = Some sc' \<and>
        anomaly_models (snd (detect_system_anomalies lib features e)) ''system_metrics'' = Some md'"
  proof (intro allI impI)
    fix sc sc' scaled md md' sf s ss l ls
    assume a: "50 < length (historical_data e) \<and>
      10 < length (List.map_filter (\<lambda>en. extract_system_features (data en)) (last_n 50 (historical_data e))) \<and>
      scalers e ''system_metrics'' = Some sc \<and>
      fit_transform lib sc
        (List.map_filter (\<lambda>en. extract_system_features (data en)) (last_n 50 (historical_data e)))
        = (sc', Some scaled) \<and>
      anomaly_models e ''system_metrics'' = Some md \<and>
      fit lib md scaled = (md', True) \<and>
      transform lib sc' [features] = Some sf \<and>
      decision_function lib md' sf = Some (s # ss) \<and>
      predict lib md' sf = Some (l # ls)"
    have eq: "detect_system_anomalies lib features e =
           (if l = - 1
            then [outlier_finding ''system_anomaly'' (- 0.5)
                    ''Unusual system behavior detected by ML model''
                    ''investigate_system_resources'' s]
            else [],
            e\<lparr>scalers := (scalers e)(''system_metrics'' \<mapsto> sc'),
              anomaly_models := (anomaly_models e)(''system_metrics'' \<mapsto> md')\<rparr>)"
      by (rule detect_system_refit) (use a in blast)+
    show "(l = - 1 \<longrightarrow>
           (\<exists>f. fst (detect_system_anomalies lib features e) = [f] \<and> ftype f = ''system_anomaly'' \<and>
                score f = Some s \<and> (severity f = ''high'' \<longleftrightarrow> s < - 0.5) \<and>
                (severity f = ''medium'' \<longleftrightarrow> \<not> s < - 0.5))) \<and>
        (l \<noteq> - 1 \<longrightarrow> fst (detect_system_anomalies lib features e) = []) \<and>
        scalers (snd (detect_system_anomalies lib features e)) ''system_metrics'' = Some sc' \<and>
        anomaly_models (snd (detect_system_anomalies lib features e)) ''system_metrics'' = Some md'"
      unfolding eq by (simp add: outlier_finding_def)
  qed
  have r2: "\<forall>sc sc' scaled md md' sf s ss l ls.
      30 < length (historical_data e) \<and>
      10 < length (List.map_filter (\<lambda>en. extract_network_features (data en)) (last_n 30 (historical_data e))) \<and>
      scalers e ''network_metrics'' = Some sc \<and>
      fit_transform lib sc
        (List.map_filter (\<lambda>en. extract_network_features (data en)) (last_n 30 (historical_data e)))
        = (sc', Some scaled) \<and>
      anomaly_models e ''network_metrics'' = Some md \<and>
      fit lib md scaled = (md', True) \<and>
      transform lib sc' [features] = Some sf \<and>
      decision_function lib md' sf = Some (s # ss) \<and>
      predict lib md' sf = Some (l # ls) \<longrightarrow>
        (l = - 1 \<longrightarrow>
           (\<exists>f. fst (detect_network_anomalies lib features e) = [f] \<and> ftype f = ''network_anomaly'' \<and>
                score f = Some s \<and> (severity f = ''high'' \<longleftrightarrow> s < - 0.3) \<and>
                (severity f = ''medium'' \<longleftrightarrow> \<not> s < - 0.3))) \<and>
        (l \<noteq> - 1 \<longrightarrow> fst (detect_network_anomalies lib features e) = []) \<and>
        scalers (snd (detect_network_anomalies lib features e)) ''network_metrics'' = Some sc' \<and>
        anomaly_models (snd (detect_network_anomalies lib features e)) ''network_metrics'' = Some md'"
  proof (intro allI impI)
    fix sc sc' scaled md md' sf s ss l ls
    assume a: "30 < length (historical_data e) \<and>
      10 < length (List.map_filter (\<lambda>en. extract_network_features (data en)) (last_n 30 (historical_data e))) \<and>
      scalers e ''network_metrics'' = Some sc \<and>
      fit_transform lib sc
        (List.map_filter (\<lambda>en. extract_network_features (data en)) (last_n 30 (historical_data e)))
        = (sc', Some scaled) \<and>
      anomaly_models e ''network_metrics'' = Some md \<and>
      fit lib md scaled = (md', True) \<and>
      transform lib sc' [features] = Some sf \<and>
      decision_function lib md' sf = Some (s # ss) \<and>
      predict lib md' sf = Some (l # ls)"
    have eq: "detect_network_anomalies lib features e =
           (if l = - 1
            then [outlier_finding ''network_anomaly'' (- 0.3)
                    ''Unusual network behavior detected''
                    ''check_network_connectivity'' s]
            else [],
            e\<lparr>scalers := (scalers e)(''network_metrics'' \<mapsto> sc'),
              anomaly_models := (anomaly_models e)(''network_metrics'' \<mapsto> md')\<rparr>)"
      by (rule detect_network_refit) (use a in blast)+
    show "(l = - 1 \<longrightarrow>
           (\<exists>f. fst (detect_network_anomalies lib features e) = [f] \<and> ftype f = ''network_anomaly'' \<and>
                score f = Some s \<and> (severity f = ''high'' \<longleftrightarrow> s < - 0.3) \<and>
                (severity f = ''medium'' \<longleftrightarrow> \<not> s < - 0.3))) \<and>
        (l \<noteq> - 1 \<longrightarrow> fst (detect_network_anomalies lib features e) = []) \<and>
        scalers (snd (detect_network_anomalies lib features e)) ''network_metrics'' = Some sc' \<and>
        anomaly_models (snd (detect_network_anomalies lib features e)) ''network_metrics'' = Some md'"
      unfolding eq by (simp add: outlier_finding_def)
  qed
  have m1: "\<forall>f \<in> set (fst (detect_system_anomalies lib features e)).
      \<exists>sc. score f = Some sc \<and> (severity f = ''high'' \<longleftrightarrow> sc < - 0.5) \<and>
           (severity f = ''medium'' \<longleftrightarrow> \<not> sc < - 0.5)"
    using detect_system_member [of _ lib features e] outlier_finding_severity by metis
  have m2: "\<forall>f \<in> set (fst (detect_network_anomalies lib features e)).
      \<exists>sc. score f = Some sc \<and> (severity f = ''high'' \<longleftrightarrow> sc < - 0.3) \<and>
           (severity f = ''medium'' \<longleftrightarrow> \<not> sc < - 0.3)"
    using detect_network_member [of _ lib features e] outlier_finding_severity by metis
  from g1 g2 g3 g4 r1 r2 m1 m2 show ?thesis by (intro conjI)
qed

lemma steady_hist: "historical_data steady_engine = replicate 51 \<lparr>timestamp = 0, data = full_snapshot\<rparr>"
  by (simp add: steady_engine_def)

lemma full_sys: "extract_system_features full_snapshot = Some [7, 0, 0, 0, 40, 0, 0, 0, 0, 0, 0]"
  by (simp add: extract_system_features_def full_snapshot_def get0_def)

lemma steady_training:
  "List.map_filter (\<lambda>en. extract_system_features (data en)) (last_n 50 (historical_data steady_engine))
     = replicate 50 [7, 0, 0, 0, 40, 0, 0, 0, 0, 0, 0]"
  by (simp add: steady_hist last_n_replicate map_filter_replicate full_sys)

lemma steady_refit:
  "fst (refit_and_score flagging_sklearn ''system_metrics'' tr [96, 0, 0, 0, 40, 0, 0, 0, 0, 0, 0] steady_engine)
     = Some (- 1, - 0.6)"
  by (simp add: refit_and_score_def steady_engine_def initialize_def flagging_sklearn_def AIEngine_init_def)

theorem outlier_detectors_refit_severity_witness:
  "50 < length (historical_data steady_engine) \<and>
   10 < length (List.map_filter (\<lambda>en. extract_system_features (data en)) (last_n 50 (historical_data steady_engine))) \<and>
   scalers steady_engine ''system_metrics'' = Some () \<and>
   fit_transform flagging_sklearn ()
     (List.map_filter (\<lambda>en. extract_system_features (data en)) (last_n 50 (historical_data steady_engine)))
     = ((), Some (replicate 50 [7, 0, 0, 0, 40, 0, 0, 0, 0, 0, 0])) \<and>
   anomaly_models steady_engine ''system_metrics'' = Some () \<and>
   fit flagging_sklearn () (replicate 50 [7, 0, 0, 0, 40, 0, 0, 0, 0, 0, 0]) = ((), True) \<and>
   transform flagging_sklearn () [[96, 0, 0, 0, 40, 0, 0, 0, 0, 0, 0]]
     = Some [[96, 0, 0, 0, 40, 0, 0, 0, 0, 0, 0]] \<and>
   decision_function flagging_sklearn () [[96, 0, 0, 0, 40, 0, 0, 0, 0, 0, 0]] = Some [- 0.6] \<and>
   predict flagging_sklearn () [[96, 0, 0, 0, 40, 0, 0, 0, 0, 0, 0]] = Some [- 1] \<and>
   (\<exists>f. fst (detect_system_anomalies flagging_sklearn [96, 0, 0, 0, 40, 0, 0, 0, 0, 0, 0] steady_engine) = [f] \<and>
        ftype f = ''system_anomaly'' \<and> score f = Some (- 0.6) \<and> severity f = ''high'')"
proof -
  have h: "50 < length (historical_data steady_engine)"
    "10 < length (List.map_filter (\<lambda>en. extract_system_features (data en)) (last_n 50 (historical_data steady_engine)))"
    by (simp add: steady_hist) (simp add: steady_training)
  have c: "scalers steady_engine ''system_metrics'' = Some ()"
    "fit_transform flagging_sklearn ()
       (List.map_filter (\<lambda>en. extract_system_features (data en)) (last_n 50 (historical_data steady_engine)))
     = ((), Some (replicate 50 [7, 0, 0, 0, 40, 0, 0, 0, 0, 0, 0]))"
    "anomaly_models steady_engine ''system_metrics'' = Some ()"
    "fit flagging_sklearn () (replicate 50 [7, 0, 0, 0, 40, 0, 0, 0, 0, 0, 0]) = ((), True)"
    "transform flagging_sklearn () [[96, 0, 0, 0, 40, 0, 0, 0, 0, 0, 0]]
     = Some [[96, 0, 0, 0, 40, 0, 0, 0, 0, 0, 0]]"
    "decision_function flagging_sklearn () [[96, 0, 0, 0, 40, 0, 0, 0, 0, 0, 0]] = Some [- 0.6]"
    "predict flagging_sklearn () [[96, 0, 0, 0, 40, 0, 0, 0, 0, 0, 0]] = Some [- 1]"
    by (simp_all only: steady_training)
      (simp_all add: steady_engine_def initialize_def flagging_sklearn_def)
  from h c
    outlier_detectors_refit_severity [of steady_engine flagging_sklearn "[96, 0, 0, 0, 40, 0, 0, 0, 0, 0, 0]",
      THEN conjunct2, THEN conjunct2, THEN conjunct2, THEN conjunct2, THEN conjunct1, rule_format,
      of "()" "()" "replicate 50 [7, 0, 0, 0, 40, 0, 0, 0, 0, 0, 0]" "()" "()"
         "[[96, 0, 0, 0, 40, 0, 0, 0, 0, 0, 0]]" "- 0.6" "[]" "- 1" "[]"]
  show ?thesis by auto
qed

subsection \<open>The history buffer\<close>

lemma system_step_history:
  "historical_data (snd (system_step lib m e)) = historical_data e \<and>
   initialized (snd (system_step lib m e)) = initialized e"
  by (simp add: system_step_def detect_system_history case_prod_beta split: option.splits sum.splits bool.splits)

lemma network_step_history:
  "historical_data (snd (network_step lib m e)) = historical_data e \<and>
   initialized (snd (network_step lib m e)) = initialized e"
  by (simp add: network_step_def detect_network_history case_prod_beta split: option.splits sum.splits bool.splits)

lemma detect_anomalies_snd:
  "snd (detect_anomalies lib now m e) =
     (if \<not> initialized e then e
      else let e0 = e\<lparr>historical_data := deque_append (historical_data e) \<lparr>timestamp = now, data = m\<rparr>\<rparr>;
               e1 = snd (system_step lib m e0)
           in if fst (system_step lib m e0) = None then e1 else snd (network_step lib m e1))"
  by (simp add: detect_anomalies_def Let_def case_prod_beta split: option.splits)

lemma detect_anomalies_history:
  "historical_data (snd (detect_anomalies lib now m e)) =
     (if initialized e then deque_append (historical_data e) \<lparr>timestamp = now, data = m\<rparr>
      else historical_data e) \<and>
   initialized (snd (detect_anomalies lib now m e)) = initialized e"
  by (simp add: detect_anomalies_snd Let_def system_step_history network_step_history)

lemma length_deque_append:
  "length q \<le> maxlen \<Longrightarrow> length (deque_append q x) \<le> maxlen"
  by (simp add: deque_append_def Let_def)

lemma deque_append_last_n:
  "deque_append (last_n maxlen xs) x = last_n maxlen (xs @ [x])"
proof (cases "length xs < maxlen")
  case True
  then show ?thesis by (simp add: deque_append_def last_n_def Let_def)
next
  case False
  then have len: "maxlen \<le> length xs" by simp
  have pos: "0 < maxlen" by (simp add: maxlen_def)
  from len pos have ne: "drop (length xs - maxlen) xs \<noteq> []" by simp
  from len pos have "tl (drop (length xs - maxlen) xs @ [x]) = drop (Suc (length xs - maxlen)) xs @ [x]"
    using ne by (simp add: drop_Suc tl_drop)
  moreover from len have "Suc (length xs) - maxlen = Suc (length xs - maxlen)" by simp
  ultimately show ?thesis using len pos
    by (simp add: deque_append_def last_n_def Let_def)
qed

lemma ingest_all_snoc:
  "ingest_all lib (snaps @ [p]) e = snd (detect_anomalies lib (fst p) (snd p) (ingest_all lib snaps e))"
  by (simp add: ingest_all_def case_prod_beta)

lemma ingest_all_initialized: "initialized (ingest_all lib snaps e) = initialized e"
  by (induction snaps rule: rev_induct) (simp_all add: ingest_all_snoc detect_anomalies_history, simp add: ingest_all_def)

lemma ingest_all_length:
  "length (historical_data e) \<le> maxlen \<Longrightarrow> length (historical_data (ingest_all lib snaps e)) \<le> maxlen"
proof (induction snaps rule: rev_induct)
  case Nil
  then show ?case by (simp add: ingest_all_def)
next
  case (snoc p snaps)
  then show ?case
    by (simp add: ingest_all_snoc detect_anomalies_history length_deque_append)
qed

lemma ingest_all_history:
  assumes "initialized e" "historical_data e = []"
  shows "historical_data (ingest_all lib snaps e) =
           last_n maxlen (map (\<lambda>p. \<lparr>timestamp = fst p, data = snd p\<rparr>) snaps)"
proof (induction snaps rule: rev_induct)
  case Nil
  with assms show ?case by (simp add: ingest_all_def last_n_def)
next
  case (snoc p snaps)
  with assms show ?case
    by (simp add: ingest_all_snoc detect_anomalies_history ingest_all_initialized deque_append_last_n)
qed

text \<open>
  C4: whatever snapshots \<^verbatim>\<open>detect_anomalies\<close> is called with, one after the other, a history of
  at most 1000 entries stays at most 1000 entries long; and on an initialized engine with an
  empty history, after \<open>1000 + k\<close> calls the history is exactly the last 1000 snapshots, in the
  order of the calls with the most recent last (the list of all snapshots without its first
  \<open>k\<close>), and so is its slice of the last 1000.
\<close>

theorem buffer_bound_and_order:
  "(length (historical_data e) \<le> 1000 \<longrightarrow>
      length (historical_data (ingest_all lib snaps e)) \<le> 1000) \<and>
   (initialized e \<and> historical_data e = [] \<and> length snaps = 1000 + k \<longrightarrow>
      historical_data (ingest_all lib snaps e)
        = drop k (map (\<lambda>p. \<lparr>timestamp = fst p, data = snd p\<rparr>) snaps) \<and>
      length (historical_data (ingest_all lib snaps e)) = 1000 \<and>
      last_n 1000 (historical_data (ingest_all lib snaps e))
        = drop k (map (\<lambda>p. \<lparr>timestamp = fst p, data = snd p\<rparr>) snaps))"
proof (intro conjI impI)
  assume "length (historical_data e) \<le> 1000"
  then show "length (historical_data (ingest_all lib snaps e)) \<le> 1000"
    using ingest_all_length [of e lib snaps] by (simp add: maxlen_def)
next
  assume a: "initialized e \<and> historical_data e = [] \<and> length snaps = 1000 + k"
  then have h: "historical_data (ingest_all lib snaps e)
        = drop k (map (\<lambda>p. \<lparr>timestamp = fst p, data = snd p\<rparr>) snaps)"
    using ingest_all_history [of e lib snaps] by (simp add: maxlen_def last_n_def)
  then show "historical_data (ingest_all lib snaps e)
        = drop k (map (\<lambda>p. \<lparr>timestamp = fst p, data = snd p\<rparr>) snaps)" .
  from h a show "length (historical_data (ingest_all lib snaps e)) = 1000" by simp
  from h a show "last_n 1000 (historical_data (ingest_all lib snaps e))
        = drop k (map (\<lambda>p. \<lparr>timestamp = fst p, data = snd p\<rparr>) snaps)"
    by (simp add: last_n_def)
qed

theorem buffer_bound_and_order_witness:
  "length (historical_data (initialize stub_sklearn AIEngine_init)) \<le> 1000 \<and>
   initialized (initialize stub_sklearn AIEngine_init) \<and>
   historical_data (initialize stub_sklearn AIEngine_init) = [] \<and>
   length (numbered_snapshots 1002) = 1000 + 2 \<and>
   historical_data (ingest_all stub_sklearn (numbered_snapshots 1002) (initialize stub_sklearn AIEngine_init))
     = map (\<lambda>i. \<lparr>timestamp = int i, data = [''cpu'' \<mapsto> [''usage_percent'' \<mapsto> real i]]\<rparr>) [2..<1002]"
proof -
  have h: "initialized (initialize stub_sklearn AIEngine_init)"
    "historical_data (initialize stub_sklearn AIEngine_init) = []"
    "length (numbered_snapshots 1002) = 1000 + 2"
    by (simp_all add: initialize_def AIEngine_init_def numbered_snapshots_def)
  from h buffer_bound_and_order [of "initialize stub_sklearn AIEngine_init" stub_sklearn "numbered_snapshots 1002" 2]
  show ?thesis
    by (simp add: numbered_snapshots_def drop_map o_def del: upt_rec_numeral)
      (simp add: numeral_2_eq_2 del: upt_rec_numeral)
qed

subsection \<open>Trend detector\<close>

lemma usage_values_cpu_history: "usage_values ''cpu'' (cpu_history vs) = vs"
  by (induction vs) (simp_all add: usage_values_def cpu_history_def get0_def)

lemma usage_values_memory_cpu_history: "usage_values ''memory'' (cpu_history vs) = []"
  by (induction vs) (simp_all add: usage_values_def cpu_history_def)

lemma last_n_cpu_history: "last_n k (cpu_history vs) = cpu_history (last_n k vs)"
  by (simp add: last_n_def cpu_history_def drop_map)

lemma historical_data_engine_with: "historical_data (engine_with h) = h"
  by (simp add: engine_with_def)

lemma cpu_trend_filter:
  assumes "length (historical_data e) \<ge> 20"
  shows "filter (\<lambda>f. ftype f = ''cpu_trend_anomaly'') (detect_pattern_anomalies m e) =
     (if length (usage_values ''cpu'' (last_n 20 (historical_data e))) \<ge> 15 \<and>
         mean (last_n 5 (usage_values ''cpu'' (last_n 20 (historical_data e))))
           > mean (take 5 (last_n 15 (usage_values ''cpu'' (last_n 20 (historical_data e))))) + 30
      then [\<lparr>ftype = ''cpu_trend_anomaly'', severity = ''high'', score = None,
             fvalue = None, threshold = None,
             description = (''Rapid CPU increase detected: {:.1f}% -> {:.1f}%'',
                [mean (take 5 (last_n 15 (usage_values ''cpu'' (last_n 20 (historical_data e))))),
                 mean (last_n 5 (usage_values ''cpu'' (last_n 20 (historical_data e))))]),
             suggested_action = ''investigate_cpu_spike''\<rparr>]
      else [])"
  using assms by (simp add: detect_pattern_anomalies_def Let_def)

lemma recent_mean:
  assumes "length vs \<ge> 15"
  shows "mean (last_n 5 vs) = sum_list (take 5 (rev vs)) / 5"
proof -
  have "take 5 (rev vs) = rev (last_n 5 vs)" by (simp add: take_rev last_n_def)
  moreover from assms have "length (last_n 5 vs) = 5" by (simp add: last_n_def)
  ultimately show ?thesis by (simp add: mean_def sum_list_rev)
qed

lemma older_mean:
  assumes "length vs \<ge> 15"
  shows "mean (take 5 (last_n 15 vs)) = sum_list (take 5 (drop 10 (rev vs))) / 5"
proof -
  have "take 5 (drop 10 (rev vs)) = rev (drop (length vs - 10 - 5) (take (length vs - 10) vs))"
    by (simp add: drop_rev take_rev)
  also from assms have "drop (length vs - 10 - 5) (take (length vs - 10) vs) = take 5 (drop (length vs - 15) vs)"
    by (simp add: drop_take)
  finally have "take 5 (drop 10 (rev vs)) = rev (take 5 (last_n 15 vs))" by (simp add: last_n_def)
  moreover from assms have "length (take 5 (last_n 15 vs)) = 5" by (simp add: last_n_def)
  ultimately show ?thesis by (simp add: mean_def sum_list_rev)
qed

text \<open>
  C2 as stated fails: the detector returns at once when fewer than 20 snapshots are buffered
  (\<^verbatim>\<open>if len(self.historical_data) < 20: return anomalies\<close>), so a buffer of exactly 15 snapshots
  with CPU values \<open>[10]*10 + [45]*5\<close> gives no finding.
\<close>

theorem detect_pattern_anomalies_counterexample:
  "detect_pattern_anomalies Map.empty
     (engine_with (cpu_history [10, 10, 10, 10, 10, 10, 10, 10, 10, 10, 45, 45, 45, 45, 45])) = []"
  by (simp add: detect_pattern_anomalies_def historical_data_engine_with cpu_history_def)

text \<open>
  C2 as amended: with fewer than 20 snapshots buffered the trend detector returns nothing.
  With at least 20 buffered, of which at least 15 of the last 20 have a cpu group, a finding
  of type \<^verbatim>\<open>cpu_trend_anomaly\<close> is returned exactly when the mean of the 5 most recent of those
  cpu values exceeds the mean of the values ranked 11th to 15th back by more than 30; there is
  at most one such finding and its severity is \<^verbatim>\<open>high\<close>.
\<close>

theorem detect_pattern_anomalies_cpu_trend:
  "(length (historical_data e) < 20 \<longrightarrow> detect_pattern_anomalies m e = []) \<and>
   (length (historical_data e) \<ge> 20 \<and> vs = usage_values ''cpu'' (last_n 20 (historical_data e)) \<and>
    length vs \<ge> 15 \<longrightarrow>
      ((\<exists>f \<in> set (detect_pattern_anomalies m e). ftype f = ''cpu_trend_anomaly'') \<longleftrightarrow>
         sum_list (take 5 (rev vs)) / 5 > sum_list (take 5 (drop 10 (rev vs))) / 5 + 30) \<and>
      length (filter (\<lambda>f. ftype f = ''cpu_trend_anomaly'') (detect_pattern_anomalies m e)) \<le> 1 \<and>
      (\<forall>f \<in> set (detect_pattern_anomalies m e). ftype f = ''cpu_trend_anomaly'' \<longrightarrow> severity f = ''high''))"
proof (intro conjI impI)
  assume "length (historical_data e) < 20"
  then show "detect_pattern_anomalies m e = []" by (simp add: detect_pattern_anomalies_def)
next
  assume a: "length (historical_data e) \<ge> 20 \<and> vs = usage_values ''cpu'' (last_n 20 (historical_data e)) \<and>
    length vs \<ge> 15"
  then have len: "length vs \<ge> 15" and vs: "usage_values ''cpu'' (last_n 20 (historical_data e)) = vs"
    and h: "length (historical_data e) \<ge> 20"
    by blast+
  have ex: "(\<exists>f \<in> set (detect_pattern_anomalies m e). ftype f = ''cpu_trend_anomaly'') \<longleftrightarrow>
      filter (\<lambda>f. ftype f = ''cpu_trend_anomaly'') (detect_pattern_anomalies m e) \<noteq> []"
    by (simp add: filter_empty_conv)
  show "(\<exists>f \<in> set (detect_pattern_anomalies m e). ftype f = ''cpu_trend_anomaly'') \<longleftrightarrow>
         sum_list (take 5 (rev vs)) / 5 > sum_list (take 5 (drop 10 (rev vs))) / 5 + 30"
    unfolding ex cpu_trend_filter [OF h] vs using len
    by (simp add: recent_mean older_mean)
  show "length (filter (\<lambda>f. ftype f = ''cpu_trend_anomaly'') (detect_pattern_anomalies m e)) \<le> 1"
    unfolding cpu_trend_filter [OF h] by simp
  have "\<forall>f \<in> set (filter (\<lambda>f. ftype f = ''cpu_trend_anomaly'') (detect_pattern_anomalies m e)). severity f = ''high''"
    unfolding cpu_trend_filter [OF h] by simp
  then show "\<forall>f \<in> set (detect_pattern_anomalies m e). ftype f = ''cpu_trend_anomaly'' \<longrightarrow> severity f = ''high''"
    by simp
qed

lemma cpu_values_engine_with:
  "length vs = 20 \<Longrightarrow> usage_values ''cpu'' (last_n 20 (historical_data (engine_with (cpu_history vs)))) = vs"
proof -
  assume "length vs = 20"
  then have "last_n 20 vs = vs" by (simp add: last_n_def)
  then show ?thesis
    by (simp add: historical_data_engine_with last_n_cpu_history usage_values_cpu_history)
qed

text \<open>
  In particular, a buffer of exactly 20 snapshots with CPU values \<open>[10]*15 + [45]*5\<close> gives a
  \<^verbatim>\<open>cpu_trend_anomaly\<close> finding, and one with \<open>[10]*20\<close> gives none.
\<close>

theorem detect_pattern_anomalies_cpu_trend_witness:
  "length (historical_data (engine_with (cpu_history rising_cpu))) \<ge> 20 \<and>
   rising_cpu = usage_values ''cpu'' (last_n 20 (historical_data (engine_with (cpu_history rising_cpu)))) \<and>
   length rising_cpu \<ge> 15 \<and>
   (\<exists>f \<in> set (detect_pattern_anomalies Map.empty (engine_with (cpu_history rising_cpu))).
      ftype f = ''cpu_trend_anomaly'') \<and>
   length (historical_data (engine_with (cpu_history flat_cpu))) \<ge> 20 \<and>
   flat_cpu = usage_values ''cpu'' (last_n 20 (historical_data (engine_with (cpu_history flat_cpu)))) \<and>
   length flat_cpu \<ge> 15 \<and>
   \<not> (\<exists>f \<in> set (detect_pattern_anomalies Map.empty (engine_with (cpu_history flat_cpu))).
      ftype f = ''cpu_trend_anomaly'')"
proof -
  have lr: "length rising_cpu = 20" and lf: "length flat_cpu = 20"
    by (simp_all add: rising_cpu_def flat_cpu_def)
  have hr: "length (historical_data (engine_with (cpu_history rising_cpu))) \<ge> 20"
    and hf: "length (historical_data (engine_with (cpu_history flat_cpu))) \<ge> 20"
    by (simp_all add: historical_data_engine_with cpu_history_def lr lf)
  have vr: "rising_cpu = usage_values ''cpu'' (last_n 20 (historical_data (engine_with (cpu_history rising_cpu))))"
    by (simp add: cpu_values_engine_with lr)
  have vf: "flat_cpu = usage_values ''cpu'' (last_n 20 (historical_data (engine_with (cpu_history flat_cpu))))"
    by (simp add: cpu_values_engine_with lf)
  have sr: "sum_list (take 5 (rev rising_cpu)) / 5 > sum_list (take 5 (drop 10 (rev rising_cpu))) / 5 + 30"
    by (simp add: rising_cpu_def)
  have sf: "\<not> sum_list (take 5 (rev flat_cpu)) / 5 > sum_list (take 5 (drop 10 (rev flat_cpu))) / 5 + 30"
    by (simp add: flat_cpu_def)
  from detect_pattern_anomalies_cpu_trend [of "engine_with (cpu_history rising_cpu)" Map.empty rising_cpu] hr vr lr sr
  have r: "\<exists>f \<in> set (detect_pattern_anomalies Map.empty (engine_with (cpu_history rising_cpu))).
      ftype f = ''cpu_trend_anomaly''"
    by simp
  from detect_pattern_anomalies_cpu_trend [of "engine_with (cpu_history flat_cpu)" Map.empty flat_cpu] hf vf lf sf
  have f: "\<not> (\<exists>f \<in> set (detect_pattern_anomalies Map.empty (engine_with (cpu_history flat_cpu))).
      ftype f = ''cpu_trend_anomaly'')"
    by simp
  from hr vr lr r hf vf lf f show ?thesis by simp
qed

subsection \<open>Failure prediction\<close>

lemma length_usage_values: "length (usage_values key entries) \<le> length entries"
  by (induction entries) (simp_all add: usage_values_def split: option.splits)

lemma length_last_n: "length (last_n k xs) \<le> k"
  by (simp add: last_n_def)

lemma usage_values_memory_map:
  "usage_values ''memory''
     (map (\<lambda>i. \<lparr>timestamp = t i, data = [''memory'' \<mapsto> [''usage_percent'' \<mapsto> v i]]\<rparr>) is)
   = map v is"
  by (induction "is") (simp_all add: usage_values_def get0_def)

lemma polyfit_slope_line:
  "polyfit_slope (map (\<lambda>j. a + b * real j) [0..<10]) = b"
proof -
  have "[0..<10] = [0, 1, 2, 3, 4, 5, 6, 7, 8, 9 :: nat]" by (simp add: upt_rec)
  then show ?thesis by (simp add: polyfit_slope_def Let_def field_simps)
qed

lemma ramp_history:
  assumes "n \<le> 1000"
  shows "historical_data (ingest_all lib (ramp n) (initialize lib AIEngine_init)) =
     map (\<lambda>i. \<lparr>timestamp = int i, data = [''memory'' \<mapsto> [''usage_percent'' \<mapsto> ramp_value i]]\<rparr>) [0..<n]"
proof -
  have "initialized (initialize lib AIEngine_init)" "historical_data (initialize lib AIEngine_init) = []"
    by (simp_all add: initialize_def AIEngine_init_def)
  then have "historical_data (ingest_all lib (ramp n) (initialize lib AIEngine_init)) =
      last_n maxlen (map (\<lambda>p. \<lparr>timestamp = fst p, data = snd p\<rparr>) (ramp n))"
    by (rule ingest_all_history)
  also from assms have "\<dots> = map (\<lambda>p. \<lparr>timestamp = fst p, data = snd p\<rparr>) (ramp n)"
    by (simp add: last_n_def maxlen_def ramp_def)
  finally show ?thesis by (simp add: ramp_def o_def)
qed

lemma ramp_window:
  assumes "10 \<le> n" "n \<le> 1000"
  shows "usage_values ''memory'' (last_n 10 (historical_data (ingest_all lib (ramp n) (initialize lib AIEngine_init))))
     = map (\<lambda>j. ramp_value (n - 10) + 60 / 59 * real j) [0..<10]"
proof -
  have "usage_values ''memory'' (last_n 10 (historical_data (ingest_all lib (ramp n) (initialize lib AIEngine_init))))
      = map ramp_value [n - 10..<n]"
    using assms by (simp add: ramp_history last_n_def drop_map usage_values_memory_map del: upt_rec_numeral)
  also have "[n - 10..<n] = map (\<lambda>j. j + (n - 10)) [0..<10]"
  proof -
    have "map (\<lambda>j. j + (n - 10)) [0..<10] = [n - 10..<10 + (n - 10)]" by (rule map_add_upt)
    moreover from assms have "10 + (n - 10) = n" by simp
    ultimately show ?thesis by simp
  qed
  also have "map ramp_value (map (\<lambda>j. j + (n - 10)) [0..<10]) =
      map (\<lambda>j. ramp_value (n - 10) + 60 / 59 * real j) [0..<10]"
    by (simp add: ramp_value_def field_simps del: upt_rec_numeral)
  finally show ?thesis .
qed

lemma last_line: "last (map (\<lambda>j. a + b * real j) [0..<10]) = a + 9 * b"
  by (simp add: last_map del: upt_rec_numeral)

lemma predict_failure_ramp:
  assumes "m ''memory'' \<noteq> None" "10 \<le> n" "n \<le> 60"
  shows "memory_exhaustion_prediction (predict_failure m (ingest_all lib (ramp n) (initialize lib AIEngine_init)))
     = (if 35 \<le> n
        then Some \<lparr>time_to_failure = py_int ((95 - ramp_value (n - 1)) / (60 / 59)),
                   confidence = 0.85, current_usage = ramp_value (n - 1), trend = 60 / 59\<rparr>
        else None)"
proof -
  let ?e = "ingest_all lib (ramp n) (initialize lib AIEngine_init)"
  let ?h = "usage_values ''memory'' (last_n 10 (historical_data ?e))"
  from assms have len: "\<not> length (historical_data ?e) < 10" by (simp add: ramp_history)
  from assms have w: "?h = map (\<lambda>j. ramp_value (n - 10) + 60 / 59 * real j) [0..<10]"
    by (simp add: ramp_window)
  have slope: "polyfit_slope ?h = 60 / 59" unfolding w by (rule polyfit_slope_line)
  have "last ?h = ramp_value (n - 10) + 9 * (60 / 59)" unfolding w by (rule last_line)
  also from assms have "\<dots> = ramp_value (n - 1)"
    by (simp add: ramp_value_def field_simps of_nat_diff)
  finally have cur: "last ?h = ramp_value (n - 1)" .
  have lh: "length ?h = 10" unfolding w by simp
  have time: "(95 - ramp_value (n - 1)) / (60 / 59) < 50 \<longleftrightarrow> 35 \<le> n"
  proof -
    from assms have "real (n - 1) = real n - 1" by (simp add: of_nat_diff)
    then have eq: "(95 - ramp_value (n - 1)) / (60 / 59) = 5075 / 60 - real n"
      by (simp add: ramp_value_def field_simps)
    have "5075 / 60 - real n < 50 \<longleftrightarrow> 35 \<le> n"
    proof
      assume "5075 / 60 - real n < 50"
      then have "real n > 34" by simp
      then show "35 \<le> n" by linarith
    next
      assume "35 \<le> n"
      then have "real n \<ge> 35" by simp
      then show "5075 / 60 - real n < 50" by simp
    qed
    then show ?thesis unfolding eq .
  qed
  show ?thesis
  proof (cases "35 \<le> n")
    case True
    with time have "(95 - ramp_value (n - 1)) / (60 / 59) < 50" by blast
    with assms(1) len True show ?thesis
      by (simp add: predict_failure_def Let_def slope cur lh)
  next
    case False
    with time have "\<not> (95 - ramp_value (n - 1)) / (60 / 59) < 50" by blast
    with assms(1) len False show ?thesis
      by (simp add: predict_failure_def Let_def slope cur lh)
  qed
qed

lemma length_window: "length (usage_values key (last_n 10 entries)) \<le> 10"
  using length_usage_values [of key "last_n 10 entries"] length_last_n [of 10 entries] by simp

lemma memory_prediction_conditions:
  assumes "memory_exhaustion_prediction (predict_failure m e) = Some p"
  shows "5 \<le> length (usage_values ''memory'' (last_n 10 (historical_data e))) \<and>
         trend p = polyfit_slope (usage_values ''memory'' (last_n 10 (historical_data e))) \<and>
         0 < trend p \<and>
         (95 - last (usage_values ''memory'' (last_n 10 (historical_data e)))) / trend p < 50 \<and>
         confidence p \<le> 0.85"
  using assms by (auto simp: predict_failure_def Let_def split: if_splits)

lemma disk_prediction_conditions:
  assumes "disk_full_prediction (predict_failure m e) = Some p"
  shows "5 \<le> length (usage_values ''disk'' (last_n 10 (historical_data e))) \<and>
         trend p = polyfit_slope (usage_values ''disk'' (last_n 10 (historical_data e))) \<and>
         0 < trend p \<and>
         (100 - last (usage_values ''disk'' (last_n 10 (historical_data e)))) / trend p < 100 \<and>
         confidence p \<le> 0.9"
  using assms by (auto simp: predict_failure_def Let_def split: if_splits)

text \<open>
  C8 as stated fails in its last part: with the first 10 snapshots of the run buffered the
  fitted slope is \<open>60/59\<close>, but memory usage is about 19 and the extrapolated time to 95 is
  about 74.6 intervals, not below 50, so no memory prediction is reported.
\<close>

theorem predict_failure_counterexample:
  "length (historical_data (ingest_all stub_sklearn (ramp 10) (initialize stub_sklearn AIEngine_init))) = 10 \<and>
   polyfit_slope (usage_values ''memory'' (last_n 10
      (historical_data (ingest_all stub_sklearn (ramp 10) (initialize stub_sklearn AIEngine_init))))) = 60 / 59 \<and>
   memory_exhaustion_prediction
     (predict_failure [''memory'' \<mapsto> [''usage_percent'' \<mapsto> ramp_value 9]]
        (ingest_all stub_sklearn (ramp 10) (initialize stub_sklearn AIEngine_init))) = None"
proof -
  have "usage_values ''memory'' (last_n 10
      (historical_data (ingest_all stub_sklearn (ramp 10) (initialize stub_sklearn AIEngine_init))))
      = map (\<lambda>j. ramp_value (10 - 10) + 60 / 59 * real j) [0..<10]"
    by (rule ramp_window) simp_all
  then have "polyfit_slope (usage_values ''memory'' (last_n 10
      (historical_data (ingest_all stub_sklearn (ramp 10) (initialize stub_sklearn AIEngine_init))))) = 60 / 59"
    by (simp only: polyfit_slope_line)
  moreover have "length (historical_data (ingest_all stub_sklearn (ramp 10) (initialize stub_sklearn AIEngine_init))) = 10"
    by (simp add: ramp_history)
  moreover have "memory_exhaustion_prediction
     (predict_failure [''memory'' \<mapsto> [''usage_percent'' \<mapsto> ramp_value 9]]
        (ingest_all stub_sklearn (ramp 10) (initialize stub_sklearn AIEngine_init))) = None"
    by (simp add: predict_failure_ramp)
  ultimately show ?thesis by blast
qed

text \<open>
  C8 as amended: a disk (memory) prediction is reported only if the slope fitted over the
  usage values of the last 10 buffered snapshots, of which there are between 5 and 10, is
  positive and the extrapolated time to 100 (95) is below 100 (50); the reported trend is that
  slope and the confidence is at most 0.9 (0.85). In the run of 60 snapshots with memory usage
  rising linearly from 10 to 70, the memory prediction is reported, with a positive trend,
  once at least 35 snapshots are buffered, and is not while 10 to 34 are.
\<close>

theorem predict_failure_conditions:
  "(\<forall>p. disk_full_prediction (predict_failure m e) = Some p \<longrightarrow>
        5 \<le> length (usage_values ''disk'' (last_n 10 (historical_data e))) \<and>
        length (usage_values ''disk'' (last_n 10 (historical_data e))) \<le> 10 \<and>
        trend p = polyfit_slope (usage_values ''disk'' (last_n 10 (historical_data e))) \<and>
        0 < trend p \<and>
        (100 - last (usage_values ''disk'' (last_n 10 (historical_data e)))) / trend p < 100 \<and>
        confidence p \<le> 0.9) \<and>
   (\<forall>p. memory_exhaustion_prediction (predict_failure m e) = Some p \<longrightarrow>
        5 \<le> length (usage_values ''memory'' (last_n 10 (historical_data e))) \<and>
        length (usage_values ''memory'' (last_n 10 (historical_data e))) \<le> 10 \<and>
        trend p = polyfit_slope (usage_values ''memory'' (last_n 10 (historical_data e))) \<and>
        0 < trend p \<and>
        (95 - last (usage_values ''memory'' (last_n 10 (historical_data e)))) / trend p < 50 \<and>
        confidence p \<le> 0.85) \<and>
   (m ''memory'' \<noteq> None \<and> 35 \<le> n \<and> n \<le> 60 \<longrightarrow>
      (\<exists>p. memory_exhaustion_prediction
             (predict_failure m (ingest_all lib (ramp n) (initialize lib AIEngine_init))) = Some p \<and>
           0 < trend p)) \<and>
   (m ''memory'' \<noteq> None \<and> 10 \<le> n \<and> n < 35 \<longrightarrow>
      memory_exhaustion_prediction
        (predict_failure m (ingest_all lib (ramp n) (initialize lib AIEngine_init))) = None)"
proof -
  have disk: "\<forall>p. disk_full_prediction (predict_failure m e) = Some p \<longrightarrow>
        5 \<le> length (usage_values ''disk'' (last_n 10 (historical_data e))) \<and>
        length (usage_values ''disk'' (last_n 10 (historical_data e))) \<le> 10 \<and>
        trend p = polyfit_slope (usage_values ''disk'' (last_n 10 (historical_data e))) \<and>
        0 < trend p \<and>
        (100 - last (usage_values ''disk'' (last_n 10 (historical_data e)))) / trend p < 100 \<and>
        confidence p \<le> 0.9"
    using disk_prediction_conditions [of m e] length_window [of "''disk''" "historical_data e"]
    by blast
  have memory: "\<forall>p. memory_exhaustion_prediction (predict_failure m e) = Some p \<longrightarrow>
        5 \<le> length (usage_values ''memory'' (last_n 10 (historical_data e))) \<and>
        length (usage_values ''memory'' (last_n 10 (historical_data e))) \<le> 10 \<and>
        trend p = polyfit_slope (usage_values ''memory'' (last_n 10 (historical_data e))) \<and>
        0 < trend p \<and>
        (95 - last (usage_values ''memory'' (last_n 10 (historical_data e)))) / trend p < 50 \<and>
        confidence p \<le> 0.85"
    using memory_prediction_conditions [of m e] length_window [of "''memory''" "historical_data e"]
    by blast
  have late: "m ''memory'' \<noteq> None \<and> 35 \<le> n \<and> n \<le> 60 \<longrightarrow>
      (\<exists>p. memory_exhaustion_prediction
             (predict_failure m (ingest_all lib (ramp n) (initialize lib AIEngine_init))) = Some p \<and>
           0 < trend p)"
    by (simp add: predict_failure_ramp)
  have early: "m ''memory'' \<noteq> None \<and> 10 \<le> n \<and> n < 35 \<longrightarrow>
      memory_exhaustion_prediction
        (predict_failure m (ingest_all lib (ramp n) (initialize lib AIEngine_init))) = None"
    by (simp add: predict_failure_ramp)
  from disk memory late early show ?thesis by (intro conjI)
qed

theorem predict_failure_conditions_witness:
  "[''memory'' \<mapsto> [''usage_percent'' \<mapsto> 70::real]] ''memory'' \<noteq> None \<and> (35::nat) \<le> 60 \<and>
   memory_exhaustion_prediction
     (predict_failure [''memory'' \<mapsto> [''usage_percent'' \<mapsto> 70]]
        (ingest_all stub_sklearn (ramp 60) (initialize stub_sklearn AIEngine_init)))
     = Some \<lparr>time_to_failure = 24, confidence = 0.85, current_usage = 70, trend = 60 / 59\<rparr> \<and>
   polyfit_slope (usage_values ''memory'' (last_n 10
      (historical_data (ingest_all stub_sklearn (ramp 60) (initialize stub_sklearn AIEngine_init))))) = 60 / 59 \<and>
   (95 - last (usage_values ''memory'' (last_n 10
      (historical_data (ingest_all stub_sklearn (ramp 60) (initialize stub_sklearn AIEngine_init)))))) / (60 / 59) < 50"
proof -
  have m: "[''memory'' \<mapsto> [''usage_percent'' \<mapsto> 70::real]] ''memory'' \<noteq> None" by simp
  have p: "memory_exhaustion_prediction
     (predict_failure [''memory'' \<mapsto> [''usage_percent'' \<mapsto> 70]]
        (ingest_all stub_sklearn (ramp 60) (initialize stub_sklearn AIEngine_init)))
     = Some \<lparr>time_to_failure = 24, confidence = 0.85, current_usage = 70, trend = 60 / 59\<rparr>"
    by (simp add: predict_failure_ramp ramp_value_def py_int_def)
  from m p predict_failure_conditions [of "[''memory'' \<mapsto> [''usage_percent'' \<mapsto> 70]]"
      "ingest_all stub_sklearn (ramp 60) (initialize stub_sklearn AIEngine_init)" 60 stub_sklearn]
  show ?thesis by simp
qed

subsection \<open>The engine before initialization\<close>

text \<open>
  C10: while \<^verbatim>\<open>initialized\<close> is false, \<^verbatim>\<open>detect_anomalies\<close> returns the empty list and the
  engine is left as it was: history, models, scalers and patterns.
\<close>

theorem detect_anomalies_uninitialized:
  "\<not> initialized e \<Longrightarrow> detect_anomalies lib now metrics_data e = ([], e)"
  by (simp add: detect_anomalies_def)

theorem detect_anomalies_uninitialized_witness:
  "\<not> initialized (AIEngine_init :: (unit, unit) engine) \<and>
   detect_anomalies stub_sklearn 7 [''cpu'' \<mapsto> [''usage_percent'' \<mapsto> 96]] AIEngine_init
     = ([], AIEngine_init)"
proof -
  have h: "\<not> initialized (AIEngine_init :: (unit, unit) engine)"
    by (simp add: AIEngine_init_def)
  from h detect_anomalies_uninitialized [OF h] show ?thesis by simp
qed

end
